theory Spec2Isabelle
  imports Main "HOL-Library.Sublist" "HOL-Library.AList"
begin

section \<open>JavaScript values and strings\<close>

text \<open>
  The application is one script, \<^verbatim>\<open>static/js/app.js\<close>. Its data are JSON values received
  from the backend, JavaScript strings and three module-level variables
  (\<^verbatim>\<open>currentMemory\<close>, \<^verbatim>\<open>currentEventsData\<close>, \<^verbatim>\<open>currentRecordsData\<close>).

  A JSON value is modelled with its members in property-iteration order
  (\<^verbatim>\<open>Object.entries\<close>); the keys of one object are distinct. \<^verbatim>\<open>undefined\<close> is the
  value \<open>None\<close> of \<open>json option\<close>. Numbers are integers. A string is a list of
  characters and \<^verbatim>\<open>.length\<close> is its length, which is exact for ASCII text.
\<close>

datatype json =
    JNull
  | JBool bool
  | JNum int
  | JStr string
  | JArr "json list"
  | JObj "(string \<times> json) list"

text \<open>JavaScript truthiness (\<^verbatim>\<open>!x\<close>, \<^verbatim>\<open>x && ...\<close>, \<^verbatim>\<open>x || ...\<close>).\<close>

fun truthy :: "json \<Rightarrow> bool" where
  "truthy JNull = False"
| "truthy (JBool b) = b"
| "truthy (JNum n) = (n \<noteq> 0)"
| "truthy (JStr s) = (s \<noteq> [])"
| "truthy (JArr vs) = True"
| "truthy (JObj kvs) = True"

fun truthy_opt :: "json option \<Rightarrow> bool" where
  "truthy_opt None = False"
| "truthy_opt (Some v) = truthy v"

text \<open>
  \<^verbatim>\<open>v[field]\<close> for a property name that is not \<^verbatim>\<open>length\<close>, not an array index and not
  an inherited member: such a name is found on an object only.
\<close>

fun get_field :: "json \<Rightarrow> string \<Rightarrow> json option" where
  "get_field (JObj kvs) field = map_of kvs field"
| "get_field v field = None"

text \<open>\<^verbatim>\<open>Object.keys(v).length\<close> for a value that is neither null nor undefined.\<close>

fun keys_length :: "json \<Rightarrow> nat" where
  "keys_length (JObj kvs) = length kvs"
| "keys_length (JArr vs) = length vs"
| "keys_length (JStr s) = length s"
| "keys_length v = 0"

subsection \<open>String.prototype.includes and String.prototype.replace\<close>

text \<open>
  \<open>split_first pat s\<close> finds the first occurrence of \<open>pat\<close> in \<open>s\<close> and returns the text
  before and after it.
\<close>

fun split_first :: "string \<Rightarrow> string \<Rightarrow> (string \<times> string) option" where
  "split_first pat [] = (if pat = [] then Some ([], []) else None)"
| "split_first pat (c # cs) =
     (if prefix pat (c # cs) then Some ([], drop (length pat) (c # cs))
      else (case split_first pat cs of
              None \<Rightarrow> None
            | Some (pre, post) \<Rightarrow> Some (c # pre, post)))"

definition js_includes :: "string \<Rightarrow> string \<Rightarrow> bool" where
  "js_includes s pat = (split_first pat s \<noteq> None)"

text \<open>
  The replacement text of \<^verbatim>\<open>s.replace(pattern, replacement)\<close> with a string pattern
  (ECMAScript GetSubstitution with no captures): \<^verbatim>\<open>$$\<close> stands for a dollar sign,
  \<^verbatim>\<open>$&\<close> for the matched text, \<^verbatim>\<open>$`\<close> for the text before the match and \<^verbatim>\<open>$'\<close> for the
  text after it; every other character stands for itself.
\<close>

fun getSubstitution :: "string \<Rightarrow> string \<Rightarrow> string \<Rightarrow> string \<Rightarrow> string" where
  "getSubstitution matched pre post [] = []"
| "getSubstitution matched pre post [c] = [c]"
| "getSubstitution matched pre post (c # d # rest) =
     (if c = CHR ''$'' \<and> d = CHR ''$'' then CHR ''$'' # getSubstitution matched pre post rest
      else if c = CHR ''$'' \<and> d = CHR ''&'' then matched @ getSubstitution matched pre post rest
      else if c = CHR ''$'' \<and> d = CHR 0x60 then pre @ getSubstitution matched pre post rest
      else if c = CHR ''$'' \<and> d = CHR 0x27 then post @ getSubstitution matched pre post rest
      else c # getSubstitution matched pre post (d # rest))"

text \<open>\<^verbatim>\<open>s.replace(pat, replacement)\<close>: only the first occurrence is replaced.\<close>

definition js_replace :: "string \<Rightarrow> string \<Rightarrow> string \<Rightarrow> string" where
  "js_replace s pat replacement =
     (case split_first pat s of
        None \<Rightarrow> s
      | Some (pre, post) \<Rightarrow> pre @ getSubstitution pat pre post replacement @ post)"

section \<open>Strategies and their default namespace\<close>

text \<open>
  Of a strategy the modelled code reads \<^verbatim>\<open>strategyId\<close> and \<^verbatim>\<open>namespaces\<close>; the latter
  is \<open>None\<close> when the member is missing.
\<close>

record strategy =
  strategyId :: string
  namespaces :: "string list option"

definition getSimplifiedNamespace :: "strategy \<Rightarrow> string" where
  "getSimplifiedNamespace strategy =
     (case namespaces strategy of
        None \<Rightarrow> ''/default/''
      | Some [] \<Rightarrow> ''/default/''
      | Some (namespace # _) \<Rightarrow>
          (if js_includes namespace ''{memoryStrategyId}''
           then js_replace namespace ''{memoryStrategyId}'' (strategyId strategy)
           else namespace))"

section \<open>Content preview extraction\<close>

text \<open>
  \<^verbatim>\<open>v[field] && typeof v[field] === 'string'\<close>: the member is a non-empty string.
\<close>

fun string_at :: "json \<Rightarrow> string \<Rightarrow> string option" where
  "string_at v field =
     (case get_field v field of
        Some (JStr s) \<Rightarrow> (if s \<noteq> [] then Some s else None)
      | _ \<Rightarrow> None)"

text \<open>
  \<^verbatim>\<open>obj.content && obj.content[field] && typeof obj.content[field] === 'string'\<close>.
\<close>

fun nested_string_at :: "json \<Rightarrow> string \<Rightarrow> string option" where
  "nested_string_at obj field =
     (case get_field obj ''content'' of
        None \<Rightarrow> None
      | Some c \<Rightarrow> (if truthy c then string_at c field else None))"

text \<open>
  The loop \<^verbatim>\<open>for (const field of textFields)\<close>: each field is looked up at the top
  level and then under \<^verbatim>\<open>content\<close> before the next field is tried.
\<close>

fun scanTextFields :: "json \<Rightarrow> string list \<Rightarrow> string option" where
  "scanTextFields obj [] = None"
| "scanTextFields obj (field # others) =
     (case string_at obj field of
        Some s \<Rightarrow> Some s
      | None \<Rightarrow>
          (case nested_string_at obj field of
             Some s \<Rightarrow> Some s
           | None \<Rightarrow> scanTextFields obj others))"

definition textFields :: "string list" where
  "textFields = [''text'', ''content'', ''message'', ''description'', ''summary'', ''value'']"

text \<open>
  The inner function \<^verbatim>\<open>extractStrings(obj, depth = 0)\<close>; the result lists the strings in
  the order in which they are pushed.
\<close>

function extractStrings :: "json \<Rightarrow> nat \<Rightarrow> string list" where
  "extractStrings obj depth =
     (if depth > 3 then []
      else (case obj of
              JStr s \<Rightarrow> (if length s > 10 then [s] else [])
            | JObj kvs \<Rightarrow> concat (map (\<lambda>kv. extractStrings (snd kv) (depth + 1)) kvs)
            | JArr vs \<Rightarrow> concat (map (\<lambda>v. extractStrings v (depth + 1)) vs)
            | _ \<Rightarrow> []))"
  by pat_completeness auto
termination
  by (relation "measure (\<lambda>(obj, depth). 4 - depth)") auto

declare extractStrings.simps [simp del]

definition extractTextForPreview :: "json \<Rightarrow> string" where
  "extractTextForPreview obj =
     (if \<not> truthy obj then ''''
      else (case scanTextFields obj textFields of
              Some s \<Rightarrow> s
            | None \<Rightarrow>
                (case extractStrings obj 0 of
                   [] \<Rightarrow> ''Complex data structure''
                 | s # _ \<Rightarrow> s)))"

text \<open>
  \<^verbatim>\<open>generateContentPreview(content, metadata)\<close> up to the text it hands to
  \<^verbatim>\<open>escapeHtml\<close>. \<open>fullContent\<close> is the combined object the extractor is called on.
\<close>

definition has_keys :: "json option \<Rightarrow> bool" where
  "has_keys v = (case v of None \<Rightarrow> False | Some x \<Rightarrow> truthy x \<and> keys_length x > 0)"

definition fullContent :: "json option \<Rightarrow> json option \<Rightarrow> json" where
  "fullContent content metadata =
     JObj ((case content of
              Some c \<Rightarrow> if has_keys content then [(''content'', c)] else []
            | None \<Rightarrow> []) @
           (case metadata of
              Some m \<Rightarrow> if has_keys metadata then [(''metadata'', m)] else []
            | None \<Rightarrow> []))"

datatype preview = NoContent | PreviewText string | NoPreviewAvailable

definition generateContentPreview :: "json option \<Rightarrow> json option \<Rightarrow> preview" where
  "generateContentPreview content metadata =
     (if \<not> has_keys content \<and> \<not> has_keys metadata then NoContent
      else (let previewText = extractTextForPreview (fullContent content metadata) in
            if previewText \<noteq> []
            then PreviewText (if length previewText > 100 then take 100 previewText @ ''...''
                              else previewText)
            else NoPreviewAvailable))"

section \<open>Requests and responses\<close>

text \<open>Decimal text of a number, as a template literal renders it.\<close>

definition digit_char :: "nat \<Rightarrow> char" where
  "digit_char d = ''0123456789'' ! d"

function show_nat :: "nat \<Rightarrow> string" where
  "show_nat n = (if n < 10 then [digit_char n] else show_nat (n div 10) @ [digit_char (n mod 10)])"
  by pat_completeness auto
termination
  by (relation "measure (\<lambda>n. n)") auto

declare show_nat.simps [simp del]

definition show_int :: "int \<Rightarrow> string" where
  "show_int i = (if i < 0 then CHR ''-'' # show_nat (nat (- i)) else show_nat (nat i))"

text \<open>
  \<^verbatim>\<open>encodeURIComponent\<close>: letters, digits and \<^verbatim>\<open>- _ . ! ~ * ' ( )\<close> are kept, every other
  character is written as a percent sign and two upper-case hexadecimal digits. A
  character of the model stands for one byte of the UTF-8 text.
\<close>

definition uri_unreserved :: "char \<Rightarrow> bool" where
  "uri_unreserved c =
     (c \<in> set ''ABCDEFGHIJKLMNOPQRSTUVWXYZabcdefghijklmnopqrstuvwxyz0123456789-_.!~*()''
      \<or> c = CHR 0x27)"

definition hex_char :: "nat \<Rightarrow> char" where
  "hex_char d = ''0123456789ABCDEF'' ! d"

definition percent_encode :: "char \<Rightarrow> string" where
  "percent_encode c =
     [CHR ''%'', hex_char ((of_char c :: nat) div 16), hex_char ((of_char c :: nat) mod 16)]"

definition encodeURIComponent :: "string \<Rightarrow> string" where
  "encodeURIComponent s = concat (map (\<lambda>c. if uri_unreserved c then [c] else percent_encode c) s)"

text \<open>\<^verbatim>\<open>String.prototype.trim\<close> on ASCII text.\<close>

definition js_space :: "char \<Rightarrow> bool" where
  "js_space c = (c \<in> {CHR 0x09, CHR 0x0A, CHR 0x0B, CHR 0x0C, CHR 0x0D, CHR 0x20})"

definition trim :: "string \<Rightarrow> string" where
  "trim s = rev (dropWhile js_space (rev (dropWhile js_space s)))"

text \<open>
  \<^verbatim>\<open>String(v)\<close>, which \<^verbatim>\<open>new Error(v)\<close> applies to its argument. The elements of an array
  are joined with commas, null elements as empty text.
\<close>

fun join_comma :: "string list \<Rightarrow> string" where
  "join_comma [] = []"
| "join_comma [x] = x"
| "join_comma (x # y # ys) = x @ '','' @ join_comma (y # ys)"

fun js_toString :: "json \<Rightarrow> string" where
  "js_toString JNull = ''null''"
| "js_toString (JBool b) = (if b then ''true'' else ''false'')"
| "js_toString (JNum n) = show_int n"
| "js_toString (JStr s) = s"
| "js_toString (JArr vs) =
     join_comma (map (\<lambda>v. if v = JNull then [] else js_toString v) vs)"
| "js_toString (JObj kvs) = ''[object Object]''"

text \<open>
  What one \<^verbatim>\<open>fetch\<close> call meets. \<open>Rejected msg\<close>: the promise rejects (network error) with
  that message. \<open>Responded status statusText body\<close>: a response arrives; \<open>body\<close> is what
  \<^verbatim>\<open>response.json()\<close> gives, either a rejection with the message of its SyntaxError or
  the parsed object, of which the model keeps the member \<^verbatim>\<open>detail\<close> and, as \<open>payload\<close>,
  the members the caller reads on success.
\<close>

datatype 'a parsed = NotJson string | Parsed "json option" 'a

datatype 'a fetched = Rejected string | Responded nat string "'a parsed"

definition response_ok :: "nat \<Rightarrow> bool" where
  "response_ok status = (200 \<le> status \<and> status \<le> 299)"

text \<open>The message of \<^verbatim>\<open>new Error(`HTTP ${response.status}: ${response.statusText}`)\<close>.\<close>

definition http_error :: "nat \<Rightarrow> string \<Rightarrow> string" where
  "http_error status statusText = ''HTTP '' @ show_nat status @ '': '' @ statusText"

text \<open>
  The body of most API calls:
  \<^verbatim>\<open>if (!response.ok) throw new Error(`HTTP ...`); return await response.json();\<close>
  The result is the message of the error thrown (\<open>Inl\<close>) or the value returned (\<open>Inr\<close>).
\<close>

definition status_checked :: "'a fetched \<Rightarrow> string + 'a" where
  "status_checked outcome =
     (case outcome of
        Rejected msg \<Rightarrow> Inl msg
      | Responded status statusText body \<Rightarrow>
          (if \<not> response_ok status then Inl (http_error status statusText)
           else (case body of NotJson msg \<Rightarrow> Inl msg | Parsed d x \<Rightarrow> Inr x)))"

text \<open>
  The body of the call in \<^verbatim>\<open>executeAddEvent\<close>:
  \<^verbatim>\<open>if (!response.ok) { const err = await response.json();
       throw new Error(err.detail || response.statusText); }\<close>
\<close>

definition detail_checked :: "'a fetched \<Rightarrow> string + 'a" where
  "detail_checked outcome =
     (case outcome of
        Rejected msg \<Rightarrow> Inl msg
      | Responded status statusText body \<Rightarrow>
          (case body of
             NotJson msg \<Rightarrow> Inl msg
           | Parsed d x \<Rightarrow>
               (if \<not> response_ok status
                then Inl (case d of
                            None \<Rightarrow> statusText
                          | Some v \<Rightarrow> if truthy v then js_toString v else statusText)
                else Inr x)))"

record request =
  http_method :: string
  url :: string
  sent_body :: "json option"

section \<open>Page state\<close>

text \<open>
  Of a memory the modelled code reads \<^verbatim>\<open>id\<close> and \<^verbatim>\<open>strategies\<close>. Of an event it reads
  \<^verbatim>\<open>eventId\<close>, \<^verbatim>\<open>eventType\<close> and, for the preview, \<^verbatim>\<open>payload\<close>, \<^verbatim>\<open>data\<close> and \<^verbatim>\<open>metadata\<close>; of a
  record \<^verbatim>\<open>recordId\<close>, \<^verbatim>\<open>memoryRecordId\<close>, \<^verbatim>\<open>memoryStrategyId\<close>, \<^verbatim>\<open>content\<close> and \<^verbatim>\<open>metadata\<close>.
  The time stamps are read as well; \<^verbatim>\<open>formatDate\<close> turns them into the text of a date or
  into \<^verbatim>\<open>N/A\<close> or \<^verbatim>\<open>Invalid Date\<close>, which the model does not keep. An optional member is
  \<open>None\<close> when it is missing. The cached copies \<^verbatim>\<open>{...event, sessionId, actorId}\<close> and
  \<^verbatim>\<open>{...record, namespace}\<close> are the extended records.
\<close>

record memory =
  memory_id :: string
  strategies :: "strategy list"

record event =
  eventId :: string
  eventType :: "string option"
  payload :: "json option"
  data :: "json option"
  metadata :: "json option"

record cached_event = event +
  sessionId :: string
  actorId :: string

record memory_record =
  recordId :: "string option"
  memoryRecordId :: "string option"
  memoryStrategyId :: "string option"
  content :: "json option"
  record_metadata :: "json option"

record cached_record = memory_record +
  namespace :: string

definition cache_event :: "event \<Rightarrow> string \<Rightarrow> string \<Rightarrow> cached_event" where
  "cache_event e sid aid =
     \<lparr>eventId = eventId e, eventType = eventType e, payload = payload e, data = data e,
      metadata = metadata e, sessionId = sid, actorId = aid\<rparr>"

definition cache_record :: "memory_record \<Rightarrow> string \<Rightarrow> cached_record" where
  "cache_record r ns =
     \<lparr>recordId = recordId r, memoryRecordId = memoryRecordId r,
      memoryStrategyId = memoryStrategyId r, content = content r,
      record_metadata = record_metadata r, namespace = ns\<rparr>"

text \<open>
  \<^verbatim>\<open>record.recordId || record.memoryRecordId\<close>, kept when it is truthy (a non-empty
  string): the key under which \<^verbatim>\<open>displayRecords\<close> caches the record.
\<close>

definition str_truthy :: "string option \<Rightarrow> bool" where
  "str_truthy v = (case v of None \<Rightarrow> False | Some x \<Rightarrow> x \<noteq> [])"

definition record_key :: "memory_record \<Rightarrow> string option" where
  "record_key r =
     (let k = (if str_truthy (recordId r) then recordId r else memoryRecordId r)
      in if str_truthy k then k else None)"

text \<open>
  The rendered page. The script builds the markup of a results container as one
  string and assigns it to \<^verbatim>\<open>innerHTML\<close>. The identifiers, the event type, the strategy
  id, the namespace, the title and the message of an error are put into that string
  as they are; the preview passes through \<^verbatim>\<open>escapeHtml\<close>, and a date is the text
  \<^verbatim>\<open>formatDate\<close> returns. An identifier stands between the double quotes of the
  attributes \<^verbatim>\<open>data-event-id\<close> or \<^verbatim>\<open>data-record-id\<close> and \<^verbatim>\<open>data-item-id\<close> and inside a \<^verbatim>\<open>code\<close>
  element; the other texts stand inside elements.

  \<open>text_plain\<close> says that a text holds none of the characters that change what the
  HTML parser reads inside an element: \<^verbatim>\<open><\<close>, \<^verbatim>\<open>&\<close>, carriage return and the null
  character. \<open>id_plain\<close> excludes the double quote as well, which ends an attribute
  value. When every text of a layout is plain, the parser builds the layout with
  these texts unchanged, and the container holds one of
  \<^item> \<open>LoadingView\<close>, \<open>AlertView\<close>: the spinner and the alert boxes;
  \<^item> \<open>EventsView n rows\<close>, written by \<^verbatim>\<open>displayEvents\<close>: the container's only child is
    \<^verbatim>\<open>div.table-responsive\<close>, which holds the line with \<^verbatim>\<open>span.badge\<close> reading
    \<^verbatim>\<open>n event(s)\<close> and, after it, the table with one \<^verbatim>\<open>tr[data-event-id]\<close> per row;
  \<^item> \<open>RecordsView title ns n rows\<close>, written by \<^verbatim>\<open>displayRecords\<close>: a first child
    \<^verbatim>\<open>div.mb-3\<close> with the title and a \<^verbatim>\<open>small\<close> reading
    \<^verbatim>\<open>Namespace: ns, Found n record(s)\<close>, and a second child \<^verbatim>\<open>div.table-responsive\<close>
    with one \<^verbatim>\<open>tr[data-record-id]\<close> per row.
  A row is kept with the value of its id attribute, which is also the
  \<^verbatim>\<open>data-item-id\<close> of its two buttons, and its preview cell. When a text is not plain,
  what the parser builds depends on the text; the container then holds \<open>OtherMarkup\<close>,
  of which the model says nothing, neither which rows it shows nor which ids they
  carry.

  The deletion routines find a row with \<^verbatim>\<open>querySelector\<close> and a selector that holds the
  id between double quotes; the id they are given is taken to be free of the
  characters a CSS string treats specially (backslash, line feed, form feed).
\<close>

definition text_plain :: "string \<Rightarrow> bool" where
  "text_plain t = list_all (\<lambda>c. c \<notin> set [CHR ''<'', CHR ''&'', CHR 0x0D, CHR 0x00]) t"

definition id_plain :: "string \<Rightarrow> bool" where
  "id_plain t = (text_plain t \<and> list_all (\<lambda>c. c \<noteq> CHR 0x22) t)"

datatype alert_kind = Info | Warning | Danger | Success

datatype row = Row (row_id: string) (row_preview: preview)

datatype results_view =
    Blank
  | LoadingView string
  | AlertView alert_kind string
  | EventsView nat "row list"
  | RecordsView string string nat "row list"
  | OtherMarkup

datatype container =
    GlobalEventsResults
  | AddEventResults
  | StrategyRecordsResults nat
  | StrategyRetrieveResults nat

datatype panel =
    MemoryDetails | WelcomeMessage | MemoryInfo | LoadingMemory | ErrorMemory
  | MemoryLoading | MemoryList | MemoryError

datatype modal_data = EventData cached_event | RecordData cached_record | InheritedMember

datatype pending_delete = PendingEvent string string string | PendingRecord string string

text \<open>
  The two caches are plain objects used as dictionaries; the model keeps the list of
  their own entries. \<^verbatim>\<open>cache[id]\<close> finds the entry stored under the id, and for an id
  with no entry it finds the member of that name every object inherits from
  \<^verbatim>\<open>Object.prototype\<close>, if there is one. Each of these members is a function or an
  object, hence truthy, and has no member \<^verbatim>\<open>sessionId\<close>, \<^verbatim>\<open>actorId\<close> or \<^verbatim>\<open>namespace\<close>.
  An item whose own id is \<^verbatim>\<open>__proto__\<close> is kept as an entry like the others: the
  assignment makes the item the prototype of the cache, and \<^verbatim>\<open>cache['__proto__']\<close>
  then finds that item.
\<close>

datatype 'a property = Own 'a | Inherited | Absent

definition object_prototype_members :: "string list" where
  "object_prototype_members =
     [''constructor'', ''hasOwnProperty'', ''isPrototypeOf'', ''propertyIsEnumerable'',
      ''toLocaleString'', ''toString'', ''valueOf'', ''__proto__'', ''__defineGetter__'',
      ''__defineSetter__'', ''__lookupGetter__'', ''__lookupSetter__'']"

definition js_get :: "(string \<times> 'a) list \<Rightarrow> string \<Rightarrow> 'a property" where
  "js_get cache k =
     (case map_of cache k of
        Some v \<Rightarrow> Own v
      | None \<Rightarrow> if k \<in> set object_prototype_members then Inherited else Absent)"

text \<open>
  The state of the page: the module-level variables of the script and what is on
  screen. \<open>hidden\<close> are the panels carrying the class \<^verbatim>\<open>d-none\<close>; \<open>tabs\<close> is the number of
  strategy tabs rendered, each with its two results containers; \<open>json_modal\<close> and
  \<open>delete_modal\<close> are the open dialogs with their text and what they are bound to;
  \<open>alerts\<close> are the messages of \<^verbatim>\<open>alert(...)\<close>, \<open>toasts\<close> those of the notifications and
  \<open>requests\<close> the HTTP requests issued, all in order of time.
\<close>

record app =
  currentMemory :: "memory option"
  currentSessionId :: "string option"
  currentActorId :: "string option"
  currentEventsData :: "(string \<times> cached_event) list"
  currentRecordsData :: "(string \<times> cached_record) list"
  select_value :: string
  memory_options :: "memory list"
  hidden :: "panel set"
  tabs :: nat
  views :: "container \<Rightarrow> results_view"
  json_modal :: "(string \<times> modal_data) option"
  delete_modal :: "(string \<times> pending_delete) option"
  alerts :: "string list"
  toasts :: "string list"
  requests :: "request list"

definition showElement :: "panel \<Rightarrow> app \<Rightarrow> app" where
  "showElement p s = s\<lparr>hidden := hidden s - {p}\<rparr>"

definition hideElement :: "panel \<Rightarrow> app \<Rightarrow> app" where
  "hideElement p s = s\<lparr>hidden := insert p (hidden s)\<rparr>"

definition render :: "container \<Rightarrow> results_view \<Rightarrow> app \<Rightarrow> app" where
  "render c v s = s\<lparr>views := (views s)(c := v)\<rparr>"

definition showLoading :: "container \<Rightarrow> string \<Rightarrow> app \<Rightarrow> app" where
  "showLoading c message s = render c (LoadingView message) s"

text \<open>An alert box whose message is not a fixed text of the script.\<close>

definition alert_view :: "alert_kind \<Rightarrow> string \<Rightarrow> results_view" where
  "alert_view kind message = (if text_plain message then AlertView kind message else OtherMarkup)"

definition showError :: "container \<Rightarrow> string \<Rightarrow> app \<Rightarrow> app" where
  "showError c message s = render c (alert_view Danger message) s"

definition showWarning :: "container \<Rightarrow> string \<Rightarrow> app \<Rightarrow> app" where
  "showWarning c message s = render c (AlertView Warning message) s"

definition send :: "string \<Rightarrow> string \<Rightarrow> json option \<Rightarrow> app \<Rightarrow> app" where
  "send m u b s = s\<lparr>requests := requests s @ [\<lparr>http_method = m, url = u, sent_body = b\<rparr>]\<rparr>"

section \<open>Rendering events and records\<close>

definition js_or :: "json option \<Rightarrow> json option \<Rightarrow> json option" where
  "js_or a b = (if truthy_opt a then a else b)"

text \<open>
  The texts of one table row that are written unescaped: \<^verbatim>\<open>${event.eventId}\<close> and
  \<^verbatim>\<open>${event.eventType || 'N/A'}\<close> for an event, the record id or \<^verbatim>\<open>N/A\<close> and
  \<^verbatim>\<open>${record.memoryStrategyId || 'N/A'}\<close> for a record.
\<close>

definition or_na :: "string option \<Rightarrow> string" where
  "or_na v = (if str_truthy v then (case v of Some x \<Rightarrow> x | None \<Rightarrow> ''N/A'') else ''N/A'')"

definition event_markup_plain :: "event \<Rightarrow> bool" where
  "event_markup_plain e = (id_plain (eventId e) \<and> text_plain (or_na (eventType e)))"

definition record_markup_plain :: "memory_record \<Rightarrow> bool" where
  "record_markup_plain r =
     (id_plain (or_na (record_key r)) \<and> text_plain (or_na (memoryStrategyId r)))"

definition event_row :: "event \<Rightarrow> row" where
  "event_row e = Row (eventId e) (generateContentPreview (js_or (payload e) (data e)) (metadata e))"

definition record_row :: "memory_record \<Rightarrow> row" where
  "record_row r =
     Row (or_na (record_key r)) (generateContentPreview (content r) (record_metadata r))"

text \<open>
  The loops \<^verbatim>\<open>events.forEach(...)\<close> and \<^verbatim>\<open>records.forEach(...)\<close> that fill the cache
  objects. Assigning to a key that exists keeps its place and replaces its value.
\<close>

definition store_events :: "event list \<Rightarrow> string \<Rightarrow> string \<Rightarrow> (string \<times> cached_event) list" where
  "store_events es sid aid =
     fold (\<lambda>e cache. AList.update (eventId e) (cache_event e sid aid) cache) es []"

definition store_records :: "memory_record list \<Rightarrow> string \<Rightarrow> (string \<times> cached_record) list" where
  "store_records rs ns =
     fold (\<lambda>r cache. case record_key r of
                        Some k \<Rightarrow> AList.update k (cache_record r ns) cache
                      | None \<Rightarrow> cache) rs []"

text \<open>
  \<^verbatim>\<open>displayEvents(container, events, sessionId, actorId)\<close>; \<open>None\<close> is a response without
  the member \<^verbatim>\<open>events\<close>.
\<close>

definition displayEvents :: "container \<Rightarrow> event list option \<Rightarrow> string \<Rightarrow> string \<Rightarrow> app \<Rightarrow> app" where
  "displayEvents c evs sid aid s =
     (case evs of
        None \<Rightarrow> render c (AlertView Info ''No events found.'') s
      | Some [] \<Rightarrow> render c (AlertView Info ''No events found.'') s
      | Some (e # es) \<Rightarrow>
          render c (if list_all event_markup_plain (e # es)
                    then EventsView (length (e # es)) (map event_row (e # es))
                    else OtherMarkup)
            (s\<lparr>currentEventsData := store_events (e # es) sid aid\<rparr>))"

text \<open>\<^verbatim>\<open>displayRecords(container, records, namespace, title)\<close>.\<close>

definition displayRecords ::
  "container \<Rightarrow> memory_record list option \<Rightarrow> string \<Rightarrow> string \<Rightarrow> app \<Rightarrow> app" where
  "displayRecords c recs ns title s =
     (case recs of
        None \<Rightarrow> render c (alert_view Info (''No records found in namespace: '' @ ns)) s
      | Some [] \<Rightarrow> render c (alert_view Info (''No records found in namespace: '' @ ns)) s
      | Some (r # rs) \<Rightarrow>
          render c (if list_all record_markup_plain (r # rs) \<and> text_plain ns \<and> text_plain title
                    then RecordsView title ns (length (r # rs)) (map record_row (r # rs))
                    else OtherMarkup)
            (s\<lparr>currentRecordsData := store_records (r # rs) ns\<rparr>))"

section \<open>The list, search and add workflows\<close>

text \<open>
  A workflow is modelled from the click to the end of its continuation after the
  \<^verbatim>\<open>await\<close>; what the \<^verbatim>\<open>fetch\<close> call meets is an argument.

  \<^verbatim>\<open>executeApiCall(config)\<close>: \<open>warning\<close> is the text \<^verbatim>\<open>validation()\<close> shows when it returns
  false; \<open>apiCall\<close> gives the message of the error it throws or its result, with the
  state it leaves.
\<close>

definition executeApiCall ::
  "container \<Rightarrow> string option \<Rightarrow> (app \<Rightarrow> (string + 'a) \<times> app) \<Rightarrow> ('a \<Rightarrow> app \<Rightarrow> app)
     \<Rightarrow> string \<Rightarrow> string \<Rightarrow> app \<Rightarrow> app" where
  "executeApiCall resultsDiv warning apiCall displayFunction loadingMessage errorPrefix s =
     (case warning of
        Some w \<Rightarrow> showWarning resultsDiv w s
      | None \<Rightarrow>
          (case apiCall (showLoading resultsDiv loadingMessage s) of
             (Inr result, s') \<Rightarrow> displayFunction result s'
           | (Inl message, s') \<Rightarrow> showError resultsDiv (errorPrefix @ '': '' @ message) s'))"

subsection \<open>Request URLs\<close>

definition list_events_url :: "string \<Rightarrow> string \<Rightarrow> string \<Rightarrow> string" where
  "list_events_url mid sid aid =
     ''/api/memories/'' @ mid @ ''/events?session_id='' @ encodeURIComponent sid
       @ ''&actor_id='' @ encodeURIComponent aid @ ''&max_results=50''"

definition list_records_url :: "string \<Rightarrow> string \<Rightarrow> string" where
  "list_records_url mid ns =
     ''/api/memories/'' @ mid @ ''/records?namespace='' @ encodeURIComponent ns
       @ ''&max_results=50''"

definition retrieve_url :: "string \<Rightarrow> string" where
  "retrieve_url mid = ''/api/memories/'' @ mid @ ''/retrieve''"

definition add_event_url :: "string \<Rightarrow> string" where
  "add_event_url mid = ''/api/memories/'' @ mid @ ''/records''"

definition get_memory_url :: "string \<Rightarrow> string" where
  "get_memory_url mid = ''/api/memories/'' @ mid"

definition delete_event_url :: "string \<Rightarrow> string \<Rightarrow> string \<Rightarrow> string \<Rightarrow> string" where
  "delete_event_url mid eid sid aid =
     ''/api/memories/'' @ encodeURIComponent mid @ ''/events/'' @ encodeURIComponent eid
       @ ''?session_id='' @ encodeURIComponent sid @ ''&actor_id='' @ encodeURIComponent aid"

definition delete_record_url :: "string \<Rightarrow> string \<Rightarrow> string \<Rightarrow> string" where
  "delete_record_url mid rid ns =
     ''/api/memories/'' @ encodeURIComponent mid @ ''/records/'' @ encodeURIComponent rid
       @ ''?namespace='' @ encodeURIComponent ns"

subsection \<open>Workflows\<close>

text \<open>
  \<^verbatim>\<open>executeGlobalListEvents()\<close>; the two inputs are the values of the session and actor
  fields.
\<close>

definition executeGlobalListEvents ::
  "string \<Rightarrow> string \<Rightarrow> event list option fetched \<Rightarrow> app \<Rightarrow> app" where
  "executeGlobalListEvents sessionInput actorInput outcome s =
     (case currentMemory s of
        None \<Rightarrow> s
      | Some m \<Rightarrow>
          executeApiCall GlobalEventsResults
            (if trim sessionInput = [] \<or> trim actorInput = []
             then Some ''Please enter both Session ID and Actor ID.'' else None)
            (\<lambda>s1. (status_checked outcome,
                    send ''GET'' (list_events_url (memory_id m) (trim sessionInput) (trim actorInput)) None
                      (s1\<lparr>currentSessionId := Some (trim sessionInput),
                          currentActorId := Some (trim actorInput)\<rparr>)))
            (\<lambda>evs. displayEvents GlobalEventsResults evs (trim sessionInput) (trim actorInput))
            ''Loading events...'' ''Error loading events'' s)"

text \<open>
  \<^verbatim>\<open>executeListMemoryRecords(strategyIndex)\<close>. It returns at once when no memory is
  selected or the memory has no strategy of that index. The namespace field and the
  results container belong to the tab of that index; without the tab the first access
  to the field raises an exception nobody catches and nothing else happens.
\<close>

definition executeListMemoryRecords ::
  "nat \<Rightarrow> string \<Rightarrow> memory_record list option fetched \<Rightarrow> app \<Rightarrow> app" where
  "executeListMemoryRecords strategyIndex namespaceInput outcome s =
     (case currentMemory s of
        None \<Rightarrow> s
      | Some m \<Rightarrow>
          if strategyIndex < length (strategies m) \<and> strategyIndex < tabs s
          then executeApiCall (StrategyRecordsResults strategyIndex)
            (if trim namespaceInput = [] then Some ''Please enter a namespace.'' else None)
            (\<lambda>s1. (status_checked outcome,
                    send ''GET'' (list_records_url (memory_id m) (trim namespaceInput)) None s1))
            (\<lambda>recs. displayRecords (StrategyRecordsResults strategyIndex) recs
                       (trim namespaceInput) ''Memory Records'')
            ''Loading memory records...'' ''Error loading memory records'' s
          else s)"

text \<open>\<^verbatim>\<open>executeRetrieveMemoryRecords(strategyIndex)\<close>.\<close>

definition executeRetrieveMemoryRecords ::
  "nat \<Rightarrow> string \<Rightarrow> string \<Rightarrow> memory_record list option fetched \<Rightarrow> app \<Rightarrow> app" where
  "executeRetrieveMemoryRecords strategyIndex queryInput namespaceInput outcome s =
     (case currentMemory s of
        None \<Rightarrow> s
      | Some m \<Rightarrow>
          if strategyIndex < length (strategies m) \<and> strategyIndex < tabs s
          then executeApiCall (StrategyRetrieveResults strategyIndex)
            (if trim queryInput = [] \<or> trim namespaceInput = []
             then Some ''Please enter both search query and namespace.'' else None)
            (\<lambda>s1. (status_checked outcome,
                    send ''POST'' (retrieve_url (memory_id m))
                      (Some (JObj [(''query'', JStr (trim queryInput)),
                                   (''namespace'', JStr (trim namespaceInput)),
                                   (''maxResults'', JNum 20)])) s1))
            (\<lambda>recs. displayRecords (StrategyRetrieveResults strategyIndex) recs
                       (trim namespaceInput)
                       (''Search results for '' @ [CHR 0x22] @ trim queryInput @ [CHR 0x22]))
            ''Retrieving memory records...'' ''Error retrieving memory records'' s
          else s)"

text \<open>
  \<^verbatim>\<open>executeAddEvent()\<close>; the payload of the response is the pair of its members
  \<^verbatim>\<open>message\<close> and \<^verbatim>\<open>eventId\<close>, each written as \<^verbatim>\<open>undefined\<close> when missing.
\<close>

definition or_undefined :: "string option \<Rightarrow> string" where
  "or_undefined v = (case v of None \<Rightarrow> ''undefined'' | Some x \<Rightarrow> x)"

definition or_default :: "string \<Rightarrow> string" where
  "or_default v = (if trim v = [] then ''default'' else trim v)"

definition executeAddEvent ::
  "string \<Rightarrow> string \<Rightarrow> string \<Rightarrow> string \<Rightarrow> string
     \<Rightarrow> (string option \<times> string option) fetched \<Rightarrow> app \<Rightarrow> app" where
  "executeAddEvent contentInput typeSelect roleSelect actorInput sessionInput outcome s =
     (case currentMemory s of
        None \<Rightarrow> s
      | Some m \<Rightarrow>
          executeApiCall AddEventResults
            (if trim contentInput = [] then Some ''Please enter content.'' else None)
            (\<lambda>s1. (detail_checked outcome,
                    send ''POST'' (add_event_url (memory_id m))
                      (Some (JObj [(''content'', JStr (trim contentInput)),
                                   (''contentType'', JStr typeSelect),
                                   (''role'', JStr roleSelect),
                                   (''actorId'', JStr (or_default actorInput)),
                                   (''sessionId'', JStr (or_default sessionInput))])) s1))
            (\<lambda>result. render AddEventResults
               (alert_view Success (or_undefined (fst result) @ '' (Event ID: ''
                                     @ or_undefined (snd result) @ '')'')))
            ''Creating event...'' ''Error creating event'' s)"

section \<open>Selecting a memory\<close>

definition hideMemoryDetails :: "app \<Rightarrow> app" where
  "hideMemoryDetails s = showElement WelcomeMessage (hideElement MemoryDetails s)"

definition hideMemoryInfo :: "app \<Rightarrow> app" where
  "hideMemoryInfo s = hideElement MemoryInfo s"

text \<open>
  \<^verbatim>\<open>showMemoryInfo(memory)\<close> fills the status and date fields of the side panel, whose
  text the model does not keep, and shows the panel.
\<close>

definition showMemoryInfo :: "app \<Rightarrow> app" where
  "showMemoryInfo s = showElement MemoryInfo s"

text \<open>
  \<^verbatim>\<open>displayStrategies\<close>, called at the end of \<^verbatim>\<open>displayMemoryDetails\<close>, writes the tab
  strip anew: one tab per strategy, each with two empty results containers.
  \<^verbatim>\<open>generateStrategyContent\<close> calls \<^verbatim>\<open>strategy.namespaces.map\<close>, which raises an exception
  for a strategy without namespaces before anything is written.
\<close>

definition clear_strategy_views :: "(container \<Rightarrow> results_view) \<Rightarrow> container \<Rightarrow> results_view" where
  "clear_strategy_views vs c =
     (case c of
        StrategyRecordsResults i \<Rightarrow> Blank
      | StrategyRetrieveResults i \<Rightarrow> Blank
      | _ \<Rightarrow> vs c)"

definition displayStrategies :: "strategy list \<Rightarrow> app \<Rightarrow> app option" where
  "displayStrategies sts s =
     (if sts = [] then Some (s\<lparr>tabs := 0, views := clear_strategy_views (views s)\<rparr>)
      else if list_ex (\<lambda>st. namespaces st = None) sts then None
      else Some (s\<lparr>tabs := length sts, views := clear_strategy_views (views s)\<rparr>))"

text \<open>\<^verbatim>\<open>loadMemoryDetails(memoryId)\<close>; the payload of the response is the memory.\<close>

definition loadMemoryDetails :: "string \<Rightarrow> memory fetched \<Rightarrow> app \<Rightarrow> app" where
  "loadMemoryDetails memoryId outcome s =
     (let s1 = send ''GET'' (get_memory_url memoryId) None
                 (showElement LoadingMemory (hideElement ErrorMemory
                   (hideElement MemoryDetails (hideElement WelcomeMessage s))))
      in case status_checked outcome of
           Inl message \<Rightarrow> showElement ErrorMemory (hideElement LoadingMemory s1)
         | Inr m \<Rightarrow>
             (case displayStrategies (strategies m) (s1\<lparr>currentMemory := Some m\<rparr>) of
                None \<Rightarrow>
                  showElement ErrorMemory (hideElement LoadingMemory (s1\<lparr>currentMemory := Some m\<rparr>))
              | Some s2 \<Rightarrow> showElement MemoryDetails (hideElement LoadingMemory s2)))"

text \<open>
  \<^verbatim>\<open>handleMemorySelection(event)\<close>; \<open>memoryId\<close> is the value of the option chosen, empty
  for the entry that stands for no memory.
\<close>

definition handleMemorySelection :: "string \<Rightarrow> memory fetched \<Rightarrow> app \<Rightarrow> app" where
  "handleMemorySelection memoryId outcome s =
     (let s0 = s\<lparr>select_value := memoryId\<rparr>
      in if memoryId = [] then hideMemoryInfo (hideMemoryDetails s0)
         else loadMemoryDetails memoryId outcome (showMemoryInfo s0))"

text \<open>\<^verbatim>\<open>loadMemories()\<close> and \<^verbatim>\<open>refreshData()\<close>.\<close>

definition loadMemories :: "memory list fetched \<Rightarrow> app \<Rightarrow> app" where
  "loadMemories outcome s =
     (let s1 = send ''GET'' ''/api/memories'' None
                 (hideElement MemoryError (hideElement MemoryList (showElement MemoryLoading s)))
      in case status_checked outcome of
           Inl message \<Rightarrow> showElement MemoryError (hideElement MemoryLoading s1)
         | Inr ms \<Rightarrow> showElement MemoryList (hideElement MemoryLoading (s1\<lparr>memory_options := ms\<rparr>)))"

definition refreshData :: "memory list fetched \<Rightarrow> app \<Rightarrow> app" where
  "refreshData outcome s =
     loadMemories outcome
       (hideMemoryInfo (hideMemoryDetails (s\<lparr>currentMemory := None, select_value := []\<rparr>)))"

section \<open>Viewing and deleting an item\<close>

definition showJsonModal :: "string \<Rightarrow> modal_data \<Rightarrow> app \<Rightarrow> app" where
  "showJsonModal title d s = s\<lparr>json_modal := Some (title, d)\<rparr>"

text \<open>
  \<^verbatim>\<open>showEventJson\<close> and \<^verbatim>\<open>showRecordJson\<close> return when \<^verbatim>\<open>cache[id]\<close> is falsy, and hand what
  they found to the dialog otherwise, be it a stored item or an inherited member.
  The dialog is kept with its title and what it was handed; what the JSON editor, a
  widget outside the script, shows for it is not modelled.
\<close>

definition showEventJson :: "string \<Rightarrow> app \<Rightarrow> app" where
  "showEventJson eid s =
     (case js_get (currentEventsData s) eid of
        Absent \<Rightarrow> s
      | Own ev \<Rightarrow> showJsonModal (''Event: '' @ eid) (EventData ev) s
      | Inherited \<Rightarrow> showJsonModal (''Event: '' @ eid) InheritedMember s)"

definition showRecordJson :: "string \<Rightarrow> app \<Rightarrow> app" where
  "showRecordJson rid s =
     (case js_get (currentRecordsData s) rid of
        Absent \<Rightarrow> s
      | Own r \<Rightarrow> showJsonModal (''Memory Record: '' @ rid) (RecordData r) s
      | Inherited \<Rightarrow> showJsonModal (''Memory Record: '' @ rid) InheritedMember s)"

text \<open>
  \<^verbatim>\<open>confirmDeleteEvent\<close> and \<^verbatim>\<open>confirmDeleteRecord\<close> open the confirmation dialog and
  bind its button to the deletion, with the session, actor and namespace read from
  what \<^verbatim>\<open>cache[id]\<close> found. For an inherited member these are \<^verbatim>\<open>undefined\<close>, which
  \<^verbatim>\<open>encodeURIComponent\<close> later turns into the text \<^verbatim>\<open>undefined\<close>.
\<close>

definition confirmDeleteEvent :: "string \<Rightarrow> app \<Rightarrow> app" where
  "confirmDeleteEvent eid s =
     (case js_get (currentEventsData s) eid of
        Absent \<Rightarrow> s
      | Own ev \<Rightarrow>
          s\<lparr>delete_modal :=
              Some (''Are you sure you want to delete event '' @ [CHR 0x22] @ eid @ [CHR 0x22] @ ''?'',
                    PendingEvent eid (sessionId ev) (actorId ev))\<rparr>
      | Inherited \<Rightarrow>
          s\<lparr>delete_modal :=
              Some (''Are you sure you want to delete event '' @ [CHR 0x22] @ eid @ [CHR 0x22] @ ''?'',
                    PendingEvent eid ''undefined'' ''undefined'')\<rparr>)"

definition confirmDeleteRecord :: "string \<Rightarrow> app \<Rightarrow> app" where
  "confirmDeleteRecord rid s =
     (case js_get (currentRecordsData s) rid of
        Absent \<Rightarrow> s
      | Own r \<Rightarrow>
          s\<lparr>delete_modal :=
              Some (''Are you sure you want to delete memory record '' @ [CHR 0x22] @ rid
                      @ [CHR 0x22] @ ''?'',
                    PendingRecord rid (namespace r))\<rparr>
      | Inherited \<Rightarrow>
          s\<lparr>delete_modal :=
              Some (''Are you sure you want to delete memory record '' @ [CHR 0x22] @ rid
                      @ [CHR 0x22] @ ''?'',
                    PendingRecord rid ''undefined'')\<rparr>)"

text \<open>
  The delegated click handlers; the two arguments are the \<^verbatim>\<open>data-item-type\<close> and
  \<^verbatim>\<open>data-item-id\<close> of the button.
\<close>

definition handleJsonViewClick :: "string \<Rightarrow> string \<Rightarrow> app \<Rightarrow> app" where
  "handleJsonViewClick itemType itemId s =
     (if itemType = ''event'' then showEventJson itemId s
      else if itemType = ''record'' then showRecordJson itemId s
      else s)"

definition handleDeleteClick :: "string \<Rightarrow> string \<Rightarrow> app \<Rightarrow> app" where
  "handleDeleteClick itemType itemId s =
     (if itemType = ''event'' then confirmDeleteEvent itemId s
      else if itemType = ''record'' then confirmDeleteRecord itemId s
      else s)"

text \<open>\<^verbatim>\<open>row.remove()\<close> for the first row that \<^verbatim>\<open>querySelector\<close> finds with the id.\<close>

fun remove_row :: "string \<Rightarrow> row list \<Rightarrow> row list" where
  "remove_row rid [] = []"
| "remove_row rid (r # rs) = (if row_id r = rid then rs else r # remove_row rid rs)"

definition has_row :: "string \<Rightarrow> row list \<Rightarrow> bool" where
  "has_row rid rows = (rid \<in> row_id ` set rows)"

text \<open>
  The element children of a results container, for each layout, and what the two
  deletion routines look for from the row they remove (of other markup the model
  keeps no children, and the deletion routines of the model leave it alone):
  \<^verbatim>\<open>row.closest('.table-responsive')?.previousElementSibling\<close>, and inside that element
  \<^verbatim>\<open>querySelector('.badge')\<close> (events) or \<^verbatim>\<open>querySelector('small')\<close> (records). The header
  line of \<^verbatim>\<open>displayRecords\<close> holds an \<^verbatim>\<open>h6\<close> and a \<^verbatim>\<open>small\<close>; the badge of \<^verbatim>\<open>displayEvents\<close>
  lies inside its \<^verbatim>\<open>div.table-responsive\<close>.
\<close>

datatype element = SpinnerBox | AlertBox | RecordsHeader | TableResponsive bool

text \<open>
  \<open>TableResponsive b\<close> is a \<^verbatim>\<open>div.table-responsive\<close>; \<open>b\<close> tells whether an element of
  class \<^verbatim>\<open>badge\<close> lies inside it: the count badge of the events layout, or the
  \<^verbatim>\<open>No Content\<close> badge of a preview cell.
\<close>

fun children :: "results_view \<Rightarrow> element list" where
  "children Blank = []"
| "children (LoadingView message) = [SpinnerBox]"
| "children (AlertView kind message) = [AlertBox]"
| "children (EventsView n rows) = [TableResponsive True]"
| "children (RecordsView title shown n rows) =
     [RecordsHeader, TableResponsive (list_ex (\<lambda>r. row_preview r = NoContent) rows)]"
| "children OtherMarkup = []"

fun is_table :: "element \<Rightarrow> bool" where
  "is_table (TableResponsive b) = True"
| "is_table el = False"

definition previousElementSibling :: "results_view \<Rightarrow> element option" where
  "previousElementSibling v =
     (case takeWhile (\<lambda>el. \<not> is_table el) (children v) of
        [] \<Rightarrow> None
      | el # els \<Rightarrow> Some (last (el # els)))"

fun holds_badge :: "element \<Rightarrow> bool" where
  "holds_badge (TableResponsive b) = b"
| "holds_badge el = False"

fun holds_small :: "element \<Rightarrow> bool" where
  "holds_small RecordsHeader = True"
| "holds_small el = False"

definition events_badge_found :: "results_view \<Rightarrow> bool" where
  "events_badge_found v =
     (case previousElementSibling v of None \<Rightarrow> False | Some el \<Rightarrow> holds_badge el)"

definition count_text_found :: "results_view \<Rightarrow> bool" where
  "count_text_found v =
     (case previousElementSibling v of None \<Rightarrow> False | Some el \<Rightarrow> holds_small el)"

definition remove_event_row :: "string \<Rightarrow> nat \<Rightarrow> results_view \<Rightarrow> results_view" where
  "remove_event_row eid currentCount v =
     (case v of
        EventsView n rows \<Rightarrow>
          (if has_row eid rows
           then EventsView (if events_badge_found v then currentCount else n) (remove_row eid rows)
           else v)
      | _ \<Rightarrow> v)"

text \<open>
  \<^verbatim>\<open>executeDeleteEvent(eventId, sessionId, actorId)\<close>. Event rows are written into the
  global events container only.
\<close>

definition executeDeleteEvent :: "string \<Rightarrow> string \<Rightarrow> string \<Rightarrow> unit fetched \<Rightarrow> app \<Rightarrow> app" where
  "executeDeleteEvent eid sid aid outcome s =
     (case currentMemory s of
        None \<Rightarrow> s
      | Some m \<Rightarrow>
          (let s1 = send ''DELETE'' (delete_event_url (memory_id m) eid sid aid) None s
           in case status_checked outcome of
                Inl message \<Rightarrow> s1\<lparr>alerts := alerts s1 @ [''Error deleting event: '' @ message]\<rparr>
              | Inr result \<Rightarrow>
                  (let cache = AList.delete eid (currentEventsData s1)
                   in s1\<lparr>currentEventsData := cache,
                         views := (views s1)(GlobalEventsResults :=
                           remove_event_row eid (length cache) (views s1 GlobalEventsResults)),
                         toasts := toasts s1 @ [''Event deleted successfully'']\<rparr>)))"

text \<open>
  \<^verbatim>\<open>executeDeleteRecord\<close> writes the text of the \<^verbatim>\<open>small\<close> element anew with the size of
  the cache as the count. The new text takes the namespace from
  a match of \<^verbatim>\<open>/Namespace: <code>([^<]+)<\/code>/\<close> against the \<^verbatim>\<open>textContent\<close> of the
  element, and the empty string when there is no match. The text content starts with
  \<^verbatim>\<open>Namespace: \<close> followed by the namespace shown; the rest of it holds no \<^verbatim>\<open><\<close>.
\<close>

definition match_here :: "string \<Rightarrow> string option" where
  "match_here t =
     (if prefix ''Namespace: <code>'' t
      then (let r = drop (length ''Namespace: <code>'') t;
                g = takeWhile (\<lambda>c. c \<noteq> CHR ''<'') r
            in if g \<noteq> [] \<and> prefix ''</code>'' (dropWhile (\<lambda>c. c \<noteq> CHR ''<'') r)
               then Some g else None)
      else None)"

fun regex_search :: "string \<Rightarrow> string option" where
  "regex_search [] = None"
| "regex_search (c # cs) =
     (case match_here (c # cs) of Some g \<Rightarrow> Some g | None \<Rightarrow> regex_search cs)"

definition namespaceMatch :: "string \<Rightarrow> string option" where
  "namespaceMatch shown = regex_search (''Namespace: '' @ shown)"

definition remove_record_row :: "string \<Rightarrow> nat \<Rightarrow> results_view \<Rightarrow> results_view" where
  "remove_record_row rid currentCount v =
     (case v of
        RecordsView title shown n rows \<Rightarrow>
          (if has_row rid rows
           then (if count_text_found v
                 then RecordsView title (case namespaceMatch shown of Some g \<Rightarrow> g | None \<Rightarrow> [])
                        currentCount (remove_row rid rows)
                 else RecordsView title shown n (remove_row rid rows))
           else v)
      | _ \<Rightarrow> v)"

text \<open>
  The results containers of the strategy tabs in document order, and the first of
  them that shows a row with the id: the one \<^verbatim>\<open>document.querySelector\<close> finds.
\<close>

definition record_containers :: "nat \<Rightarrow> container list" where
  "record_containers n =
     concat (map (\<lambda>i. [StrategyRecordsResults i, StrategyRetrieveResults i]) [0..<n])"

definition shows_record :: "string \<Rightarrow> results_view \<Rightarrow> bool" where
  "shows_record rid v = (case v of RecordsView title shown n rows \<Rightarrow> has_row rid rows | _ \<Rightarrow> False)"

text \<open>\<^verbatim>\<open>executeDeleteRecord(recordId, namespace)\<close>.\<close>

definition executeDeleteRecord :: "string \<Rightarrow> string \<Rightarrow> unit fetched \<Rightarrow> app \<Rightarrow> app" where
  "executeDeleteRecord rid ns outcome s =
     (case currentMemory s of
        None \<Rightarrow> s
      | Some m \<Rightarrow>
          (let s1 = send ''DELETE'' (delete_record_url (memory_id m) rid ns) None s
           in case status_checked outcome of
                Inl message \<Rightarrow>
                  s1\<lparr>alerts := alerts s1 @ [''Error deleting memory record: '' @ message]\<rparr>
              | Inr result \<Rightarrow>
                  (let cache = AList.delete rid (currentRecordsData s1);
                       s2 = s1\<lparr>currentRecordsData := cache,
                               toasts := toasts s1 @ [''Memory record deleted successfully'']\<rparr>
                   in case find (\<lambda>c. shows_record rid (views s1 c)) (record_containers (tabs s1)) of
                        None \<Rightarrow> s2
                      | Some c \<Rightarrow>
                          s2\<lparr>views := (views s1)(c :=
                                remove_record_row rid (length cache) (views s1 c))\<rparr>)))"

text \<open>
  A click on the button of the confirmation dialog: the dialog is hidden and the
  deletion it is bound to runs.
\<close>

definition confirmClicked :: "unit fetched \<Rightarrow> app \<Rightarrow> app" where
  "confirmClicked outcome s =
     (case delete_modal s of
        None \<Rightarrow> s
      | Some (message, PendingEvent eid sid aid) \<Rightarrow>
          executeDeleteEvent eid sid aid outcome (s\<lparr>delete_modal := None\<rparr>)
      | Some (message, PendingRecord rid ns) \<Rightarrow>
          executeDeleteRecord rid ns outcome (s\<lparr>delete_modal := None\<rparr>))"

section \<open>Reference definitions\<close>

text \<open>
  The preview rule as the specification words it: a string value at one of the six
  keys, all keys tried at the top level first and then under \<^verbatim>\<open>content\<close>; otherwise the
  first string of more than ten characters met by a scan of depth three in property
  order; otherwise the marker. \<open>extractTextForPreview_spec\<close> accepts any string value;
  \<open>extractTextForPreview_top_first\<close> accepts non-empty ones only.
\<close>

fun first_some :: "('a \<Rightarrow> 'b option) \<Rightarrow> 'a list \<Rightarrow> 'b option" where
  "first_some f [] = None"
| "first_some f (x # xs) = (case f x of Some y \<Rightarrow> Some y | None \<Rightarrow> first_some f xs)"

fun first_present :: "'a option list \<Rightarrow> 'a option" where
  "first_present [] = None"
| "first_present (None # xs) = first_present xs"
| "first_present (Some x # xs) = Some x"

function first_long_string :: "json \<Rightarrow> nat \<Rightarrow> string option" where
  "first_long_string obj depth =
     (if depth > 3 then None
      else (case obj of
              JStr s \<Rightarrow> (if length s > 10 then Some s else None)
            | JObj kvs \<Rightarrow> first_present (map (\<lambda>kv. first_long_string (snd kv) (depth + 1)) kvs)
            | JArr vs \<Rightarrow> first_present (map (\<lambda>v. first_long_string v (depth + 1)) vs)
            | _ \<Rightarrow> None))"
  by pat_completeness auto
termination
  by (relation "measure (\<lambda>(obj, depth). 4 - depth)") auto

declare first_long_string.simps [simp del]

definition any_string_at :: "json \<Rightarrow> string \<Rightarrow> string option" where
  "any_string_at v field = (case get_field v field of Some (JStr s) \<Rightarrow> Some s | _ \<Rightarrow> None)"

definition nested_any_string_at :: "json \<Rightarrow> string \<Rightarrow> string option" where
  "nested_any_string_at obj field =
     (case get_field obj ''content'' of None \<Rightarrow> None | Some c \<Rightarrow> any_string_at c field)"

definition extractTextForPreview_spec :: "json \<Rightarrow> string" where
  "extractTextForPreview_spec obj =
     (case first_some (any_string_at obj) textFields of
        Some s \<Rightarrow> s
      | None \<Rightarrow>
          (case first_some (nested_any_string_at obj) textFields of
             Some s \<Rightarrow> s
           | None \<Rightarrow>
               (case first_long_string obj 0 of
                  Some s \<Rightarrow> s
                | None \<Rightarrow> ''Complex data structure'')))"

definition extractTextForPreview_top_first :: "json \<Rightarrow> string" where
  "extractTextForPreview_top_first obj =
     (case first_some (string_at obj) textFields of
        Some s \<Rightarrow> s
      | None \<Rightarrow>
          (case first_some (nested_string_at obj) textFields of
             Some s \<Rightarrow> s
           | None \<Rightarrow>
               (case first_long_string obj 0 of
                  Some s \<Rightarrow> s
                | None \<Rightarrow> ''Complex data structure'')))"

text \<open>
  The entries of a result list keyed by id, in the order of the list; looking a key up
  in the reversed list gives the last item that carries it.
\<close>

definition event_entries :: "event list \<Rightarrow> string \<Rightarrow> string \<Rightarrow> (string \<times> cached_event) list" where
  "event_entries es sid aid = map (\<lambda>e. (eventId e, cache_event e sid aid)) es"

definition record_entries :: "memory_record list \<Rightarrow> string \<Rightarrow> (string \<times> cached_record) list" where
  "record_entries rs ns =
     List.map_filter (\<lambda>r. map_option (\<lambda>k. (k, cache_record r ns)) (record_key r)) rs"

text \<open>A page on which a memory with one strategy has been selected and shown.\<close>

definition sample_memory :: memory where
  "sample_memory =
     \<lparr>memory_id = ''mem-1'',
      strategies = [\<lparr>strategyId = ''S1'', namespaces = Some [''/strategy/{memoryStrategyId}/'']\<rparr>]\<rparr>"

definition sample_page :: app where
  "sample_page =
     \<lparr>currentMemory = Some sample_memory, currentSessionId = None, currentActorId = None,
      currentEventsData = [], currentRecordsData = [],
      select_value = ''mem-1'', memory_options = [sample_memory],
      hidden = {WelcomeMessage, LoadingMemory, ErrorMemory, MemoryLoading, MemoryError},
      tabs = 1, views = (\<lambda>c. Blank), json_modal = None, delete_modal = None,
      alerts = [], toasts = [], requests = []\<rparr>"

definition sample_event :: "string \<Rightarrow> event" where
  "sample_event eid =
     \<lparr>eventId = eid, eventType = None, payload = Some (JObj [(''text'', JStr ''hello'')]),
      data = None, metadata = None\<rparr>"

definition sample_record :: "string option \<Rightarrow> memory_record" where
  "sample_record rid =
     \<lparr>recordId = rid, memoryRecordId = None, memoryStrategyId = Some ''S1'',
      content = Some (JObj [(''text'', JStr ''hello'')]), record_metadata = None\<rparr>"

definition ok_response :: "'a \<Rightarrow> 'a fetched" where
  "ok_response x = Responded 200 ''OK'' (Parsed None x)"

text \<open>A sample page after one event and one record have been listed.\<close>

definition sample_browsed :: app where
  "sample_browsed =
     executeListMemoryRecords 0 ''/ns/'' (ok_response (Some [sample_record (Some ''r1'')]))
       (executeGlobalListEvents ''s1'' ''a1'' (ok_response (Some [sample_event ''e1'']))
          sample_page)"

text \<open>
  A sample page after the records of the namespace have been listed, with the one
  record \<^verbatim>\<open>constructor\<close>, and a search in the same tab has returned the record \<^verbatim>\<open>r1\<close>.
\<close>

definition sample_two_queries :: app where
  "sample_two_queries =
     executeRetrieveMemoryRecords 0 ''query'' ''/ns/'' (ok_response (Some [sample_record (Some ''r1'')]))
       (executeListMemoryRecords 0 ''/ns/''
          (ok_response (Some [sample_record (Some ''constructor'')])) sample_page)"

text \<open>The rows of the table a results container shows.\<close>

fun rows_of :: "results_view \<Rightarrow> row list" where
  "rows_of (EventsView n rows) = rows"
| "rows_of (RecordsView title shown n rows) = rows"
| "rows_of v = []"

text \<open>
  A request that fails: the \<^verbatim>\<open>fetch\<close> promise rejects, or the response has a status
  outside 200 to 299; and the message of the error the script raises for it.
\<close>

definition request_failed :: "'a fetched \<Rightarrow> bool" where
  "request_failed outcome =
     (case outcome of
        Rejected msg \<Rightarrow> True
      | Responded status statusText body \<Rightarrow> \<not> response_ok status)"

definition failure_text :: "'a fetched \<Rightarrow> string" where
  "failure_text outcome =
     (case outcome of
        Rejected msg \<Rightarrow> msg
      | Responded status statusText body \<Rightarrow> http_error status statusText)"

section \<open>The default namespace of a strategy\<close>

lemma getSubstitution_no_dollar:
  "CHR ''$'' \<notin> set r \<Longrightarrow> getSubstitution m b a r = r"
  by (induction m b a r rule: getSubstitution.induct) auto

text \<open>
  \<open>split_first\<close> finds an occurrence of the pattern, and fails only when there is none.
\<close>

lemma split_first_Some: "split_first pat s = Some (pre, post) \<Longrightarrow> s = pre @ pat @ post"
proof (induction s arbitrary: pre)
  case Nil
  then show ?case by (simp split: if_splits)
next
  case (Cons c cs)
  show ?case
  proof (cases "prefix pat (c # cs)")
    case True
    with Cons.prems have "pre = []" "post = drop (length pat) (c # cs)" by simp_all
    moreover from True obtain zs where "c # cs = pat @ zs" by (auto simp: prefix_def)
    ultimately show ?thesis by simp
  next
    case False
    with Cons.prems obtain pre' where "split_first pat cs = Some (pre', post)" "pre = c # pre'"
      by (auto split: option.splits)
    with Cons.IH show ?thesis by simp
  qed
qed

lemma split_first_None: "split_first pat s = None \<Longrightarrow> s \<noteq> pre @ pat @ post"
proof (induction s arbitrary: pre)
  case Nil
  then show ?case by (simp split: if_splits)
next
  case (Cons c cs)
  from Cons.prems have np: "\<not> prefix pat (c # cs)" and rec: "split_first pat cs = None"
    by (auto split: if_splits option.splits)
  show ?case
  proof (cases pre)
    case Nil
    with np show ?thesis by (auto simp: prefix_def)
  next
    case (Cons p ps)
    with Cons.IH [OF rec, of ps] show ?thesis by auto
  qed
qed

lemma getSimplifiedNamespace_default:
  "namespaces st = None \<or> namespaces st = Some [] \<Longrightarrow> getSimplifiedNamespace st = ''/default/''"
  by (auto simp: getSimplifiedNamespace_def)

lemma getSimplifiedNamespace_literal:
  assumes "namespaces st = Some (ns # others)"
    and "split_first ''{memoryStrategyId}'' ns = Some (pre, post)"
    and "CHR ''$'' \<notin> set (strategyId st)"
  shows "getSimplifiedNamespace st = pre @ strategyId st @ post"
  using assms
  by (simp add: getSimplifiedNamespace_def js_includes_def js_replace_def getSubstitution_no_dollar)

lemma getSimplifiedNamespace_no_token:
  assumes "namespaces st = Some (ns # others)"
    and "split_first ''{memoryStrategyId}'' ns = None"
  shows "getSimplifiedNamespace st = ns"
  using assms by (simp add: getSimplifiedNamespace_def js_includes_def)

lemma getSimplifiedNamespace_example:
  "getSimplifiedNamespace \<lparr>strategyId = ''S1'', namespaces = Some [''/strategy/{memoryStrategyId}/'']\<rparr>
     = ''/strategy/S1/''"
  by (simp add: getSimplifiedNamespace_def js_includes_def js_replace_def)

text \<open>
  Claim C9. The part of the claim about a missing or empty list holds
  (\<open>getSimplifiedNamespace_default\<close>), and so does the substitution for a strategy id
  without a dollar sign (\<open>getSimplifiedNamespace_literal\<close>, with the example of the
  specification in \<open>getSimplifiedNamespace_example\<close>). The script passes the strategy id
  to \<^verbatim>\<open>String.prototype.replace\<close> as the replacement text, where a dollar sign starts a
  replacement pattern: for the strategy id \<^verbatim>\<open>S$$1\<close> the namespace
  \<^verbatim>\<open>/strategy/{memoryStrategyId}/\<close> becomes \<^verbatim>\<open>/strategy/S$1/\<close>, which is not the namespace with
  the token replaced by the strategy id.
\<close>

theorem getSimplifiedNamespace_dollar_pattern:
  "getSimplifiedNamespace \<lparr>strategyId = ''S$$1'', namespaces = Some [''/strategy/{memoryStrategyId}/'']\<rparr>
     = ''/strategy/S$1/''"
  by (simp add: getSimplifiedNamespace_def js_includes_def js_replace_def)

text \<open>Only the first occurrence of the token is replaced.\<close>

lemma getSimplifiedNamespace_second_token:
  "getSimplifiedNamespace
     \<lparr>strategyId = ''S1'', namespaces = Some [''/a/{memoryStrategyId}/b/{memoryStrategyId}/'']\<rparr>
     = ''/a/S1/b/{memoryStrategyId}/''"
  by (simp add: getSimplifiedNamespace_def js_includes_def js_replace_def)

section \<open>The preview text\<close>

text \<open>
  The scan that collects every long string and takes the first one returns what a
  scan that stops at the first long string returns.
\<close>

lemma first_present_concat:
  assumes "\<And>x. x \<in> set xs \<Longrightarrow> f x = (case g x of [] \<Rightarrow> None | y # _ \<Rightarrow> Some y)"
  shows "first_present (map f xs) = (case concat (map g xs) of [] \<Rightarrow> None | y # _ \<Rightarrow> Some y)"
  using assms
proof (induction xs)
  case Nil
  show ?case by simp
next
  case (Cons a xs)
  have fa: "f a = (case g a of [] \<Rightarrow> None | y # _ \<Rightarrow> Some y)"
    by (rule Cons.prems) simp
  have ih: "first_present (map f xs) = (case concat (map g xs) of [] \<Rightarrow> None | y # _ \<Rightarrow> Some y)"
    by (rule Cons.IH) (simp add: Cons.prems)
  show ?case
  proof (cases "g a")
    case Nil
    with fa ih show ?thesis by simp
  next
    case (Cons y ys)
    with fa show ?thesis by simp
  qed
qed

lemma first_long_string_extractStrings:
  "first_long_string obj d = (case extractStrings obj d of [] \<Rightarrow> None | s # _ \<Rightarrow> Some s)"
proof (induction obj d rule: extractStrings.induct)
  case (1 obj depth)
  show ?case
  proof (cases "depth > 3")
    case True
    then show ?thesis by (simp add: first_long_string.simps extractStrings.simps)
  next
    case False
    show ?thesis
    proof (cases obj)
      case (JObj kvs)
      have "first_present (map (\<lambda>kv. first_long_string (snd kv) (depth + 1)) kvs)
          = (case concat (map (\<lambda>kv. extractStrings (snd kv) (depth + 1)) kvs) of
               [] \<Rightarrow> None | y # _ \<Rightarrow> Some y)"
        by (rule first_present_concat) (rule "1.IH"(2) [OF False JObj])
      with False JObj show ?thesis
        by (simp add: first_long_string.simps [of _ depth] extractStrings.simps [of _ depth])
    next
      case (JArr vs)
      have "first_present (map (\<lambda>v. first_long_string v (depth + 1)) vs)
          = (case concat (map (\<lambda>v. extractStrings v (depth + 1)) vs) of
               [] \<Rightarrow> None | y # _ \<Rightarrow> Some y)"
        by (rule first_present_concat) (rule "1.IH"(1) [OF False JArr])
      with False JArr show ?thesis
        by (simp add: first_long_string.simps [of _ depth] extractStrings.simps [of _ depth])
    qed (use False in \<open>simp_all add: first_long_string.simps [of _ depth] extractStrings.simps [of _ depth]\<close>)
  qed
qed

lemma scan_top_absent:
  "(\<And>f. f \<in> set fs \<Longrightarrow> string_at obj f = None) \<Longrightarrow>
   scanTextFields obj fs = first_some (nested_string_at obj) fs \<and> first_some (string_at obj) fs = None"
  by (induction fs) (auto split: option.splits)

lemma scan_nested_absent:
  "(\<And>f. f \<in> set fs \<Longrightarrow> nested_string_at obj f = None) \<Longrightarrow>
   scanTextFields obj fs = first_some (string_at obj) fs \<and> first_some (nested_string_at obj) fs = None"
  by (induction fs) (auto split: option.splits)

lemma fullContent_order_free:
  "(\<forall>f\<in>set textFields. string_at (fullContent c m) f = None)
   \<or> (\<forall>f. nested_string_at (fullContent c m) f = None)"
proof (cases "has_keys c \<and> (\<exists>t. c = Some (JStr t))")
  case True
  then obtain t where "c = Some (JStr t)" "has_keys c" by blast
  then have "\<forall>f. nested_string_at (fullContent c m) f = None"
    by (simp add: fullContent_def split: option.splits)
  then show ?thesis ..
next
  case False
  have "string_at (fullContent c m) f = None" if "f \<in> set textFields" for f
  proof (cases "f = ''content''")
    case True
    with False show ?thesis
      by (cases c) (auto simp: fullContent_def has_keys_def split: json.splits option.splits)
  next
    case no: False
    with that have "f \<noteq> ''content''" "f \<noteq> ''metadata''"
      by (auto simp: textFields_def)
    then show ?thesis by (simp add: fullContent_def split: option.splits)
  qed
  then show ?thesis by blast
qed

text \<open>
  Claim C7, as amended. On every combined object, built by \<^verbatim>\<open>generateContentPreview\<close>
  from a content and a metadata value, the extractor returns the first non-empty
  string found at the keys \<^verbatim>\<open>text, content, message, description, summary, value\<close> in
  that order, all six tried at the top level before any is tried under \<^verbatim>\<open>content\<close>;
  failing that the first string of more than ten characters met by the scan of depth
  three in property order; failing that the marker \<^verbatim>\<open>Complex data structure\<close>. The
  script tries each key at the top level and under \<^verbatim>\<open>content\<close> before it goes to the next
  key; on a combined object, whose top-level keys are \<^verbatim>\<open>content\<close> and \<^verbatim>\<open>metadata\<close> only,
  both orders give the same text.
\<close>

theorem preview_on_combined_object:
  "extractTextForPreview (fullContent c m) = extractTextForPreview_top_first (fullContent c m)"
proof -
  let ?obj = "fullContent c m"
  have t: "truthy ?obj" by (simp add: fullContent_def)
  have scan: "scanTextFields ?obj textFields
      = (case first_some (string_at ?obj) textFields of
           Some s \<Rightarrow> Some s
         | None \<Rightarrow> first_some (nested_string_at ?obj) textFields)"
    using fullContent_order_free [of c m]
  proof
    assume "\<forall>f\<in>set textFields. string_at ?obj f = None"
    then show ?thesis using scan_top_absent [of textFields ?obj] by simp
  next
    assume "\<forall>f. nested_string_at ?obj f = None"
    then show ?thesis using scan_nested_absent [of textFields ?obj]
      by (simp split: option.splits)
  qed
  show ?thesis
    unfolding extractTextForPreview_def extractTextForPreview_top_first_def
    using t by (simp add: scan first_long_string_extractStrings split: option.splits list.splits)
qed

text \<open>
  The claim as stated fails for an empty string: with the content
  \<^verbatim>\<open>{text: "", message: "hello"}\<close> the key \<^verbatim>\<open>text\<close> holds a string value, which comes first in
  the priority order, and the script returns \<^verbatim>\<open>hello\<close>.
\<close>

theorem preview_empty_string_counterexample:
  "extractTextForPreview
       (fullContent (Some (JObj [(''text'', JStr []), (''message'', JStr ''hello'')])) None)
     \<noteq> extractTextForPreview_spec
       (fullContent (Some (JObj [(''text'', JStr []), (''message'', JStr ''hello'')])) None)"
  by (simp add: extractTextForPreview_def extractTextForPreview_spec_def fullContent_def
      has_keys_def textFields_def any_string_at_def nested_any_string_at_def)

text \<open>
  On any object the script takes, for the first key that has one, the non-empty string
  at the top level or else the one under \<^verbatim>\<open>content\<close>. On an object with other top-level
  keys this differs from the top-level-first order: the script finds the nested
  \<^verbatim>\<open>text\<close> before the top-level \<^verbatim>\<open>message\<close>.
\<close>

lemma scanTextFields_per_key:
  "scanTextFields obj fs
     = first_some (\<lambda>f. case string_at obj f of Some s \<Rightarrow> Some s | None \<Rightarrow> nested_string_at obj f) fs"
  by (induction fs) (auto split: option.splits)

lemma extractTextForPreview_interleaves:
  "extractTextForPreview
     (JObj [(''message'', JStr ''top''), (''content'', JObj [(''text'', JStr ''nested'')])]) = ''nested''
   \<and> extractTextForPreview_top_first
     (JObj [(''message'', JStr ''top''), (''content'', JObj [(''text'', JStr ''nested'')])]) = ''top''"
  by (simp add: extractTextForPreview_def extractTextForPreview_top_first_def textFields_def)

section \<open>The caches after a list or search response\<close>

text \<open>
  The loop that fills a cache leaves, under every key, the last item of the list that
  carries the key, and the keys of the cache are distinct.
\<close>

lemma fold_update_map:
  "map_of (fold (\<lambda>e cache. AList.update (k e) (v e) cache) es acc)
     = map_of acc ++ map_of (rev (map (\<lambda>e. (k e, v e)) es))"
proof (induction es arbitrary: acc)
  case Nil
  show ?case by simp
next
  case (Cons e es)
  have "map_of (fold (\<lambda>e cache. AList.update (k e) (v e) cache) (e # es) acc)
      = map_of (AList.update (k e) (v e) acc) ++ map_of (rev (map (\<lambda>e. (k e, v e)) es))"
    by (simp add: Cons.IH)
  also have "\<dots> = map_of acc ++ ([k e \<mapsto> v e] ++ map_of (rev (map (\<lambda>e. (k e, v e)) es)))"
    by (simp add: update_conv' map_add_upd_left fun_eq_iff map_add_def split: option.splits)
  finally show ?case by simp
qed

lemma fold_update_option_map:
  "map_of (fold (\<lambda>r cache. case k r of Some key \<Rightarrow> AList.update key (v r) cache | None \<Rightarrow> cache) rs acc)
     = map_of acc ++ map_of (rev (List.map_filter (\<lambda>r. map_option (\<lambda>key. (key, v r)) (k r)) rs))"
proof (induction rs arbitrary: acc)
  case Nil
  show ?case by (simp add: map_filter_simps)
next
  case (Cons r rs)
  show ?case
  proof (cases "k r")
    case None
    then show ?thesis by (simp add: Cons.IH map_filter_simps)
  next
    case (Some key)
    have "map_of (AList.update key (v r) acc) ++ m = map_of acc ++ ([key \<mapsto> v r] ++ m)" for m
      by (simp add: update_conv' fun_eq_iff map_add_def split: option.splits)
    with Some show ?thesis by (simp add: Cons.IH map_filter_simps)
  qed
qed

lemma store_events_map:
  "map_of (store_events es sid aid) = map_of (rev (event_entries es sid aid))"
  by (simp add: store_events_def event_entries_def fold_update_map)

lemma store_records_map:
  "map_of (store_records rs ns) = map_of (rev (record_entries rs ns))"
  by (simp add: store_records_def record_entries_def fold_update_option_map)

lemma fold_update_distinct:
  "distinct (map fst acc) \<Longrightarrow>
   distinct (map fst (fold (\<lambda>r cache. case k r of Some key \<Rightarrow> AList.update key (v r) cache | None \<Rightarrow> cache) rs acc))"
  by (induction rs arbitrary: acc) (auto simp: distinct_update split: option.splits)

lemma store_records_distinct: "distinct (map fst (store_records rs ns))"
  by (simp add: store_records_def fold_update_distinct)

lemma store_events_distinct: "distinct (map fst (store_events es sid aid))"
proof -
  have "store_events es sid aid
      = fold (\<lambda>e cache. case Some (eventId e) of Some key \<Rightarrow> AList.update key (cache_event e sid aid) cache
                          | None \<Rightarrow> cache) es []"
    by (simp add: store_events_def)
  then show ?thesis by (simp only: fold_update_distinct [of "[]", simplified])
qed



text \<open>An empty or missing result list renders the notice.\<close>

lemma empty_result_notice:
  "evs = None \<or> evs = Some [] \<Longrightarrow>
   views (displayEvents c evs sid aid s) c = AlertView Info ''No events found.''"
  "recs = None \<or> recs = Some [] \<Longrightarrow>
   views (displayRecords c recs ns title s) c
     = alert_view Info (''No records found in namespace: '' @ ns)"
  by (auto simp: displayEvents_def displayRecords_def render_def)

text \<open>
  The three workflows hand the result list of a successful response to these two
  routines.
\<close>

lemma list_events_success:
  assumes "currentMemory s = Some m" and "trim sessionInput \<noteq> []" and "trim actorInput \<noteq> []"
    and "response_ok status"
  shows "currentEventsData
           (executeGlobalListEvents sessionInput actorInput (Responded status statusText (Parsed d evs)) s)
       = currentEventsData (displayEvents GlobalEventsResults evs (trim sessionInput) (trim actorInput) s)"
  using assms
  by (simp add: executeGlobalListEvents_def executeApiCall_def status_checked_def displayEvents_def
      render_def send_def showLoading_def split: option.splits list.splits)

lemma list_records_success:
  assumes "currentMemory s = Some m" and "i < length (strategies m)" and "i < tabs s"
    and "trim namespaceInput \<noteq> []" and "response_ok status"
  shows "currentRecordsData
           (executeListMemoryRecords i namespaceInput (Responded status statusText (Parsed d recs)) s)
       = currentRecordsData
           (displayRecords (StrategyRecordsResults i) recs (trim namespaceInput) ''Memory Records'' s)"
  using assms
  by (simp add: executeListMemoryRecords_def executeApiCall_def status_checked_def displayRecords_def
      render_def send_def showLoading_def split: option.splits list.splits)

lemma retrieve_records_success:
  assumes "currentMemory s = Some m" and "i < length (strategies m)" and "i < tabs s"
    and "trim queryInput \<noteq> []" and "trim namespaceInput \<noteq> []" and "response_ok status"
  shows "currentRecordsData
           (executeRetrieveMemoryRecords i queryInput namespaceInput
              (Responded status statusText (Parsed d recs)) s)
       = currentRecordsData
           (displayRecords (StrategyRetrieveResults i) recs (trim namespaceInput) title s)"
  using assms
  by (simp add: executeRetrieveMemoryRecords_def executeApiCall_def status_checked_def
      displayRecords_def render_def send_def showLoading_def split: option.splits list.splits)

section \<open>Rendered rows and cache entries\<close>

lemma in_record_entries:
  "(k, v) \<in> set (record_entries rs ns) \<longleftrightarrow> (\<exists>x\<in>set rs. record_key x = Some k \<and> v = cache_record x ns)"
  by (induction rs) (auto simp: record_entries_def split: option.splits)

lemma js_get_own: "map_of cache k = Some v \<Longrightarrow> js_get cache k = Own v"
  by (simp add: js_get_def)

lemma event_entry_found:
  assumes "x \<in> set es"
  shows "\<exists>y\<in>set es. eventId y = eventId x
           \<and> map_of (rev (event_entries es sid aid)) (eventId x) = Some (cache_event y sid aid)"
proof -
  have "eventId x \<in> fst ` set (rev (event_entries es sid aid))"
    using assms by (force simp: event_entries_def)
  then obtain v where v: "map_of (rev (event_entries es sid aid)) (eventId x) = Some v"
    by (metis domD dom_map_of_conv_image_fst)
  then have "(eventId x, v) \<in> set (event_entries es sid aid)"
    by (auto dest: map_of_SomeD)
  then obtain y where "y \<in> set es" "eventId y = eventId x" "v = cache_event y sid aid"
    by (auto simp: event_entries_def)
  with v show ?thesis by blast
qed

lemma record_entry_found:
  assumes "x \<in> set rs" and "record_key x = Some k"
  shows "\<exists>y\<in>set rs. record_key y = Some k
           \<and> map_of (rev (record_entries rs ns)) k = Some (cache_record y ns)"
proof -
  have "(k, cache_record x ns) \<in> set (record_entries rs ns)"
    using assms by (auto simp: in_record_entries)
  then have "k \<in> fst ` set (rev (record_entries rs ns))" by force
  then obtain v where v: "map_of (rev (record_entries rs ns)) k = Some v"
    by (metis domD dom_map_of_conv_image_fst)
  then have "(k, v) \<in> set (record_entries rs ns)"
    by (auto dest: map_of_SomeD)
  then obtain y where "y \<in> set rs" "record_key y = Some k" "v = cache_record y ns"
    by (auto simp: in_record_entries)
  with v show ?thesis by blast
qed

lemma record_entry_origin:
  assumes "map_of (store_records rs ns) k = Some v"
  shows "\<exists>y\<in>set rs. record_key y = Some k \<and> v = cache_record y ns"
proof -
  from assms have "(k, v) \<in> set (record_entries rs ns)"
    by (auto simp: store_records_map dest: map_of_SomeD)
  then show ?thesis by (simp add: in_record_entries)
qed

lemma sample_key: "record_key (sample_record (Some ''r1'')) = Some ''r1''"
  "record_key (sample_record None) = None"
  "record_key (sample_record (Some ''constructor'')) = Some ''constructor''"
  by (simp_all add: record_key_def sample_record_def str_truthy_def)

lemma sample_plain:
  "event_markup_plain (sample_event ''e1'')"
  "record_markup_plain (sample_record (Some ''r1''))"
  "record_markup_plain (sample_record None)"
  "record_markup_plain (sample_record (Some ''constructor''))"
  "text_plain ''/ns/''" "text_plain ''Memory Records''"
  by (simp_all add: event_markup_plain_def record_markup_plain_def sample_key or_na_def
      str_truthy_def id_plain_def text_plain_def)
     (simp_all add: sample_event_def sample_record_def)

lemma sample_rows:
  "event_row (sample_event ''e1'') = Row ''e1'' (PreviewText ''hello'')"
  "record_row (sample_record (Some ''r1'')) = Row ''r1'' (PreviewText ''hello'')"
  "record_row (sample_record (Some ''constructor'')) = Row ''constructor'' (PreviewText ''hello'')"
  "record_row (sample_record None) = Row ''N/A'' (PreviewText ''hello'')"
  by (simp_all add: event_row_def record_row_def sample_key or_na_def str_truthy_def)
     (simp_all add: sample_event_def sample_record_def generateContentPreview_def js_or_def
      has_keys_def fullContent_def extractTextForPreview_def textFields_def)

text \<open>
  Claim C5, as amended. Take a table rendered from a non-empty result list in which
  the texts written into the markup as they are (the ids, the event type, the
  strategy id, the namespace and the title) are plain, that is, hold no \<^verbatim>\<open><\<close>, no \<^verbatim>\<open>&\<close>,
  no carriage return and no null character, and the ids no double quote either. Then
  the table just rendered has one row per item, and for every row of an events table
  \<^verbatim>\<open>cache[id]\<close> finds, under the id of the row, an item of the list with that id together
  with the session and actor of the query; for every row of a records table whose
  record has a non-empty \<^verbatim>\<open>recordId\<close> or \<^verbatim>\<open>memoryRecordId\<close> it finds an item with that id
  together with the namespace of the query. A record with neither is rendered with
  the id \<^verbatim>\<open>N/A\<close>, and every entry of the record cache belongs to a record that has an
  id. The statement is about the table just rendered: the rows an earlier query left
  in another container lose their entries when the cache is replaced. It says nothing
  about a table with a text that is not plain.
\<close>

theorem rendered_rows_are_cached:
  "(list_all event_markup_plain (e # es) \<longrightarrow>
      views (displayEvents c (Some (e # es)) sid aid s) c
        = EventsView (length (e # es)) (map event_row (e # es))
      \<and> (\<forall>x\<in>set (e # es). \<exists>y\<in>set (e # es). eventId y = eventId x
            \<and> js_get (currentEventsData (displayEvents c (Some (e # es)) sid aid s))
                 (row_id (event_row x))
               = Own (cache_event y sid aid)))
   \<and> (list_all record_markup_plain (r # rs) \<and> text_plain ns \<and> text_plain title \<longrightarrow>
      views (displayRecords c (Some (r # rs)) ns title s) c
        = RecordsView title ns (length (r # rs)) (map record_row (r # rs))
      \<and> (\<forall>x\<in>set (r # rs). record_key x \<noteq> None \<longrightarrow>
            (\<exists>y\<in>set (r # rs). record_key y = record_key x
              \<and> js_get (currentRecordsData (displayRecords c (Some (r # rs)) ns title s))
                   (row_id (record_row x))
                 = Own (cache_record y ns)))
      \<and> (\<forall>x\<in>set (r # rs). record_key x = None \<longrightarrow> row_id (record_row x) = ''N/A''))
   \<and> (\<forall>k v. map_of (currentRecordsData (displayRecords c (Some (r # rs)) ns title s)) k = Some v
         \<longrightarrow> (\<exists>y\<in>set (r # rs). record_key y = Some k \<and> v = cache_record y ns))"
proof (intro conjI impI ballI allI)
  assume "list_all event_markup_plain (e # es)"
  then show "views (displayEvents c (Some (e # es)) sid aid s) c
        = EventsView (length (e # es)) (map event_row (e # es))"
    by (simp add: displayEvents_def render_def)
next
  fix x
  assume "x \<in> set (e # es)"
  from event_entry_found [OF this, of sid aid]
  obtain y where y: "y \<in> set (e # es)" "eventId y = eventId x"
    "map_of (rev (event_entries (e # es) sid aid)) (eventId x) = Some (cache_event y sid aid)"
    by blast
  have "js_get (currentEventsData (displayEvents c (Some (e # es)) sid aid s))
          (row_id (event_row x)) = Own (cache_event y sid aid)"
    by (rule js_get_own) (simp add: displayEvents_def render_def store_events_map event_row_def y(3))
  with y show "\<exists>y\<in>set (e # es). eventId y = eventId x
            \<and> js_get (currentEventsData (displayEvents c (Some (e # es)) sid aid s))
                 (row_id (event_row x))
               = Own (cache_event y sid aid)"
    by blast
next
  assume "list_all record_markup_plain (r # rs) \<and> text_plain ns \<and> text_plain title"
  then show "views (displayRecords c (Some (r # rs)) ns title s) c
        = RecordsView title ns (length (r # rs)) (map record_row (r # rs))"
    by (simp add: displayRecords_def render_def)
next
  fix x
  assume x: "x \<in> set (r # rs)" and "record_key x \<noteq> None"
  then obtain k where k: "record_key x = Some k" by blast
  from record_entry_found [OF x k, of ns]
  obtain y where y: "y \<in> set (r # rs)" "record_key y = Some k"
    "map_of (rev (record_entries (r # rs) ns)) k = Some (cache_record y ns)"
    by blast
  have "row_id (record_row x) = k"
    using k by (simp add: record_row_def or_na_def str_truthy_def record_key_def Let_def
        split: if_splits)
  moreover have "js_get (currentRecordsData (displayRecords c (Some (r # rs)) ns title s)) k
      = Own (cache_record y ns)"
    by (rule js_get_own) (simp add: displayRecords_def render_def store_records_map y(3))
  ultimately show "\<exists>y\<in>set (r # rs). record_key y = record_key x
              \<and> js_get (currentRecordsData (displayRecords c (Some (r # rs)) ns title s))
                   (row_id (record_row x))
                 = Own (cache_record y ns)"
    using y k by auto
next
  fix x
  assume "record_key x = None"
  then show "row_id (record_row x) = ''N/A''"
    by (simp add: record_row_def or_na_def str_truthy_def)
next
  fix k v
  assume "map_of (currentRecordsData (displayRecords c (Some (r # rs)) ns title s)) k = Some v"
  then have "map_of (store_records (r # rs) ns) k = Some v"
    by (simp add: displayRecords_def render_def)
  then show "\<exists>y\<in>set (r # rs). record_key y = Some k \<and> v = cache_record y ns"
    by (rule record_entry_origin)
qed

theorem rendered_rows_are_cached_witness:
  "views (displayEvents GlobalEventsResults (Some [sample_event ''e1'']) ''s1'' ''a1'' sample_page)
       GlobalEventsResults
     = EventsView 1 [Row ''e1'' (PreviewText ''hello'')]
   \<and> js_get (currentEventsData
       (displayEvents GlobalEventsResults (Some [sample_event ''e1'']) ''s1'' ''a1'' sample_page)) ''e1''
     = Own (cache_event (sample_event ''e1'') ''s1'' ''a1'')
   \<and> views (displayRecords (StrategyRecordsResults 0)
          (Some [sample_record (Some ''r1''), sample_record None]) ''/ns/'' ''Memory Records''
          sample_page) (StrategyRecordsResults 0)
     = RecordsView ''Memory Records'' ''/ns/'' 2
         [Row ''r1'' (PreviewText ''hello''), Row ''N/A'' (PreviewText ''hello'')]
   \<and> js_get (currentRecordsData
       (displayRecords (StrategyRecordsResults 0)
          (Some [sample_record (Some ''r1''), sample_record None]) ''/ns/'' ''Memory Records''
          sample_page)) ''r1''
     = Own (cache_record (sample_record (Some ''r1'')) ''/ns/'')"
proof -
  note inst1 = rendered_rows_are_cached [where e = "sample_event ''e1''" and es = "[]"
      and c = GlobalEventsResults and sid = "''s1''" and aid = "''a1''" and s = sample_page]
  note inst2 = rendered_rows_are_cached [where r = "sample_record (Some ''r1'')"
      and rs = "[sample_record None]" and c = "StrategyRecordsResults 0" and ns = "''/ns/''"
      and title = "''Memory Records''" and s = sample_page]
  have p1: "list_all event_markup_plain [sample_event ''e1'']"
    by (simp add: sample_plain)
  have p2: "list_all record_markup_plain [sample_record (Some ''r1''), sample_record None]
      \<and> text_plain ''/ns/'' \<and> text_plain ''Memory Records''"
    by (simp add: sample_plain)
  from inst1 p1 have e: "views (displayEvents GlobalEventsResults (Some [sample_event ''e1''])
        ''s1'' ''a1'' sample_page) GlobalEventsResults
      = EventsView 1 [Row ''e1'' (PreviewText ''hello'')]
    \<and> js_get (currentEventsData (displayEvents GlobalEventsResults (Some [sample_event ''e1''])
        ''s1'' ''a1'' sample_page)) ''e1''
      = Own (cache_event (sample_event ''e1'') ''s1'' ''a1'')"
    by (simp add: sample_rows)
  from inst2 p2 have "views (displayRecords (StrategyRecordsResults 0)
          (Some [sample_record (Some ''r1''), sample_record None]) ''/ns/'' ''Memory Records''
          sample_page) (StrategyRecordsResults 0)
     = RecordsView ''Memory Records'' ''/ns/'' 2
         [Row ''r1'' (PreviewText ''hello''), Row ''N/A'' (PreviewText ''hello'')]
    \<and> (\<exists>y\<in>set [sample_record (Some ''r1''), sample_record None].
          record_key y = Some ''r1''
          \<and> js_get (currentRecordsData (displayRecords (StrategyRecordsResults 0)
               (Some [sample_record (Some ''r1''), sample_record None]) ''/ns/'' ''Memory Records''
               sample_page)) ''r1'' = Own (cache_record y ''/ns/''))"
    by (simp add: sample_rows sample_key)
  with e show ?thesis by (auto simp: sample_key)
qed

text \<open>
  The claim as stated fails for a record without an id: its row is rendered with the
  id \<^verbatim>\<open>N/A\<close>, and the cache has no entry under \<^verbatim>\<open>N/A\<close>.
\<close>

theorem placeholder_row_counterexample:
  "rows_of (views (executeListMemoryRecords 0 ''/ns/'' (ok_response (Some [sample_record None]))
        sample_page) (StrategyRecordsResults 0))
     = [Row ''N/A'' (PreviewText ''hello'')]
   \<and> map_of (currentRecordsData
        (executeListMemoryRecords 0 ''/ns/'' (ok_response (Some [sample_record None])) sample_page))
        ''N/A'' = None"
  by (simp add: executeListMemoryRecords_def executeApiCall_def sample_page_def sample_memory_def
      ok_response_def status_checked_def response_ok_def trim_def js_space_def displayRecords_def
      render_def send_def showLoading_def store_records_def sample_key sample_plain sample_rows)

text \<open>
  The rows an earlier query left in another container are not covered: on the sample
  page after a list and a search, the row \<^verbatim>\<open>constructor\<close> of the list container is on
  screen and the cache holds the result of the search only.
\<close>

lemma earlier_rows_lose_entries:
  "rows_of (views sample_two_queries (StrategyRecordsResults 0))
     = [Row ''constructor'' (PreviewText ''hello'')]
   \<and> map fst (currentRecordsData sample_two_queries) = [''r1'']"
  by (simp add: sample_two_queries_def executeRetrieveMemoryRecords_def
      executeListMemoryRecords_def executeApiCall_def sample_page_def sample_memory_def
      ok_response_def status_checked_def response_ok_def trim_def js_space_def displayRecords_def
      render_def send_def showLoading_def store_records_def sample_key sample_plain sample_rows
      text_plain_def)

section \<open>Deselecting the memory\<close>

text \<open>
  Claim C2, as amended. In every state, choosing the empty entry of the memory
  selector hides the detail panel and the info panel and shows the welcome message;
  it leaves the event cache, the record cache, the selected memory and the results
  containers as they are and issues no request.
\<close>

theorem deselecting_hides_panels_only:
  "MemoryDetails \<in> hidden (handleMemorySelection [] outcome s)
   \<and> MemoryInfo \<in> hidden (handleMemorySelection [] outcome s)
   \<and> WelcomeMessage \<notin> hidden (handleMemorySelection [] outcome s)
   \<and> currentEventsData (handleMemorySelection [] outcome s) = currentEventsData s
   \<and> currentRecordsData (handleMemorySelection [] outcome s) = currentRecordsData s
   \<and> currentMemory (handleMemorySelection [] outcome s) = currentMemory s
   \<and> views (handleMemorySelection [] outcome s) = views s
   \<and> requests (handleMemorySelection [] outcome s) = requests s"
  by (simp add: handleMemorySelection_def hideMemoryInfo_def hideMemoryDetails_def
      hideElement_def showElement_def)

text \<open>The sample page holds one cached event and one cached record.\<close>

lemma sample_browsed_caches:
  "currentEventsData sample_browsed = [(''e1'', cache_event (sample_event ''e1'') ''s1'' ''a1'')]"
  "currentRecordsData sample_browsed = [(''r1'', cache_record (sample_record (Some ''r1'')) ''/ns/'')]"
  "currentMemory sample_browsed = Some sample_memory"
  by (simp_all add: sample_browsed_def executeListMemoryRecords_def executeGlobalListEvents_def
      executeApiCall_def sample_page_def sample_memory_def ok_response_def status_checked_def
      response_ok_def trim_def js_space_def displayRecords_def displayEvents_def render_def
      send_def showLoading_def store_records_def store_events_def sample_key sample_event_def)

text \<open>
  The claim as stated fails: on the sample page, where a memory is selected and both
  caches are non-empty, both caches are still non-empty after the memory is
  deselected. No routine of the script empties a cache except by replacing it with a
  non-empty result or deleting single items.
\<close>

theorem deselecting_keeps_caches_counterexample:
  "currentMemory sample_browsed \<noteq> None
   \<and> currentEventsData sample_browsed \<noteq> []
   \<and> currentRecordsData sample_browsed \<noteq> []
   \<and> currentEventsData (handleMemorySelection [] (Rejected []) sample_browsed) \<noteq> []
   \<and> currentRecordsData (handleMemorySelection [] (Rejected []) sample_browsed) \<noteq> []"
  by (simp add: handleMemorySelection_def hideMemoryInfo_def hideMemoryDetails_def
      hideElement_def showElement_def sample_browsed_caches)

text \<open>\<^verbatim>\<open>refreshData\<close> resets the selected memory and keeps the caches as well.\<close>

lemma refreshData_keeps_caches:
  "currentEventsData (refreshData outcome s) = currentEventsData s
   \<and> currentRecordsData (refreshData outcome s) = currentRecordsData s
   \<and> currentMemory (refreshData outcome s) = None"
  by (simp add: refreshData_def loadMemories_def hideMemoryInfo_def hideMemoryDetails_def
      hideElement_def showElement_def send_def Let_def split: sum.splits)

section \<open>A deletion that fails\<close>

lemma failed_status_checked:
  "request_failed outcome \<Longrightarrow> status_checked outcome = Inl (failure_text outcome)"
  by (auto simp: request_failed_def failure_text_def status_checked_def split: fetched.splits)

text \<open>
  Claim C8. When a memory is selected, so that the deletion request is issued, and
  the request fails (the call rejects or the status is outside 200 to 299),
  \<^verbatim>\<open>executeDeleteEvent\<close> and \<^verbatim>\<open>executeDeleteRecord\<close> show one blocking alert with the
  message of the error and change nothing else: the state afterwards is the state
  before with that alert and the request added, so both caches, every results
  container with its rows and counts, and the dialogs are as they were.
\<close>

theorem failed_deletion_changes_nothing:
  assumes "request_failed outcome" and "currentMemory s = Some m"
  shows "executeDeleteEvent eid sid aid outcome s
       = s\<lparr>alerts := alerts s @ [''Error deleting event: '' @ failure_text outcome],
           requests := requests s @ [\<lparr>http_method = ''DELETE'',
              url = delete_event_url (memory_id m) eid sid aid, sent_body = None\<rparr>]\<rparr>
     \<and> executeDeleteRecord rid ns outcome s
       = s\<lparr>alerts := alerts s @ [''Error deleting memory record: '' @ failure_text outcome],
           requests := requests s @ [\<lparr>http_method = ''DELETE'',
              url = delete_record_url (memory_id m) rid ns, sent_body = None\<rparr>]\<rparr>"
  using assms
  by (simp add: executeDeleteEvent_def executeDeleteRecord_def failed_status_checked send_def)

theorem failed_deletion_changes_nothing_witness:
  "currentEventsData (executeDeleteEvent ''e1'' ''s1'' ''a1'' (Rejected ''Failed to fetch'') sample_browsed)
     = [(''e1'', cache_event (sample_event ''e1'') ''s1'' ''a1'')]
   \<and> alerts (executeDeleteEvent ''e1'' ''s1'' ''a1'' (Rejected ''Failed to fetch'') sample_browsed)
     = [''Error deleting event: Failed to fetch'']
   \<and> views (executeDeleteEvent ''e1'' ''s1'' ''a1'' (Rejected ''Failed to fetch'') sample_browsed)
     = views sample_browsed
   \<and> currentRecordsData (executeDeleteRecord ''r1'' ''/ns/'' (Responded 500 ''Internal Server Error'' (NotJson []))
        sample_browsed)
     = [(''r1'', cache_record (sample_record (Some ''r1'')) ''/ns/'')]
   \<and> alerts (executeDeleteRecord ''r1'' ''/ns/'' (Responded 500 ''Internal Server Error'' (NotJson []))
        sample_browsed)
     = [''Error deleting memory record: HTTP 500: Internal Server Error'']"
proof -
  have f1: "request_failed (Rejected ''Failed to fetch'' :: unit fetched)"
    by (simp add: request_failed_def)
  have f2: "request_failed (Responded 500 ''Internal Server Error'' (NotJson []) :: unit fetched)"
    by (simp add: request_failed_def response_ok_def)
  have a0: "alerts sample_browsed = []"
    by (simp add: sample_browsed_def executeListMemoryRecords_def executeGlobalListEvents_def
      executeApiCall_def sample_page_def sample_memory_def ok_response_def status_checked_def
      response_ok_def trim_def js_space_def displayRecords_def displayEvents_def render_def
      send_def showLoading_def)
  have h: "http_error 500 ''Internal Server Error'' = ''HTTP 500: Internal Server Error''"
    by (simp add: http_error_def show_nat.simps digit_char_def)
  from failed_deletion_changes_nothing [OF f1 sample_browsed_caches(3), of "''e1''" "''s1''" "''a1''"]
       failed_deletion_changes_nothing [OF f2 sample_browsed_caches(3), of _ _ _ "''r1''" "''/ns/''"]
  show ?thesis
    by (simp add: sample_browsed_caches a0 failure_text_def h)
qed

text \<open>The same holds when the deletion is started from the confirmation dialog.\<close>

lemma failed_deletion_after_confirmation:
  assumes "request_failed outcome" and "currentMemory s = Some m"
    and "delete_modal s = Some (message, PendingEvent eid sid aid)"
  shows "currentEventsData (confirmClicked outcome s) = currentEventsData s"
    and "views (confirmClicked outcome s) = views s"
    and "alerts (confirmClicked outcome s)
           = alerts s @ [''Error deleting event: '' @ failure_text outcome]"
  using assms
  by (simp_all add: confirmClicked_def executeDeleteEvent_def failed_status_checked send_def)

text \<open>A list or search request that fails leaves the caches as they are, too.\<close>

lemma failed_events_query_keeps_cache:
  assumes "request_failed outcome"
  shows "currentEventsData (executeGlobalListEvents sessionInput actorInput outcome s)
           = currentEventsData s"
  using assms
  by (auto simp: executeGlobalListEvents_def executeApiCall_def failed_status_checked
      render_def send_def showLoading_def showError_def showWarning_def split: option.splits)

lemma failed_records_query_keeps_cache:
  assumes "request_failed outcome"
  shows "currentRecordsData (executeListMemoryRecords i namespaceInput outcome s)
           = currentRecordsData s"
    and "currentRecordsData (executeRetrieveMemoryRecords i queryInput namespaceInput outcome s)
           = currentRecordsData s"
  using assms
  by (auto simp: executeListMemoryRecords_def executeRetrieveMemoryRecords_def executeApiCall_def
      failed_status_checked render_def send_def showLoading_def showError_def showWarning_def
      split: option.splits)

section \<open>Actions on an id that is not cached\<close>

text \<open>
  When \<^verbatim>\<open>cache[id]\<close> finds nothing, neither an entry nor an inherited member, the view
  and the delete action leave the state as it is: no dialog opens, no request is sent
  and nothing rendered changes. A button of any other item type is ignored as well.
\<close>

lemma absent_id_is_ignored:
  "(js_get (currentEventsData s) itemId = Absent \<longrightarrow>
      handleJsonViewClick ''event'' itemId s = s \<and> handleDeleteClick ''event'' itemId s = s)
   \<and> (js_get (currentRecordsData s) itemId = Absent \<longrightarrow>
      handleJsonViewClick ''record'' itemId s = s \<and> handleDeleteClick ''record'' itemId s = s)"
  by (simp add: handleJsonViewClick_def handleDeleteClick_def showEventJson_def showRecordJson_def
      confirmDeleteEvent_def confirmDeleteRecord_def)

lemma unknown_item_type_is_ignored:
  "itemType \<noteq> ''event'' \<Longrightarrow> itemType \<noteq> ''record'' \<Longrightarrow>
   handleJsonViewClick itemType itemId s = s \<and> handleDeleteClick itemType itemId s = s"
  by (simp add: handleJsonViewClick_def handleDeleteClick_def)

text \<open>
  On the sample page after two queries the list container still shows the row of the
  record \<^verbatim>\<open>constructor\<close>, and the cache, replaced by the result of the search, has no
  entry for it.
\<close>

lemma sample_two_queries_state:
  "views sample_two_queries (StrategyRecordsResults 0)
     = RecordsView ''Memory Records'' ''/ns/'' 1 [Row ''constructor'' (PreviewText ''hello'')]"
  "currentRecordsData sample_two_queries
     = [(''r1'', cache_record (sample_record (Some ''r1'')) ''/ns/'')]"
  "currentMemory sample_two_queries = Some sample_memory"
  "delete_modal sample_two_queries = None"
  by (simp_all add: sample_two_queries_def executeRetrieveMemoryRecords_def
      executeListMemoryRecords_def executeApiCall_def sample_page_def sample_memory_def
      ok_response_def status_checked_def response_ok_def trim_def js_space_def displayRecords_def
      render_def send_def showLoading_def store_records_def sample_key sample_plain sample_rows
      text_plain_def)

text \<open>
  Claim C10. The caches are plain objects, and the guards \<^verbatim>\<open>if (!cache[id])\<close> find the
  members every object inherits. On that page the delete button of the row
  \<^verbatim>\<open>constructor\<close>, an id with no entry in the record cache, opens the confirmation
  dialog, and confirming it sends a deletion request with the namespace \<^verbatim>\<open>undefined\<close>.
\<close>

theorem inherited_name_opens_dialog:
  "map_of (currentRecordsData sample_two_queries) ''constructor'' = None
   \<and> rows_of (views sample_two_queries (StrategyRecordsResults 0))
       = [Row ''constructor'' (PreviewText ''hello'')]
   \<and> delete_modal (handleDeleteClick ''record'' ''constructor'' sample_two_queries)
       = Some (''Are you sure you want to delete memory record '' @ [CHR 0x22] @ ''constructor''
                 @ [CHR 0x22] @ ''?'',
               PendingRecord ''constructor'' ''undefined'')
   \<and> map url (requests (confirmClicked (Rejected [])
                   (handleDeleteClick ''record'' ''constructor'' sample_two_queries)))
       = map url (requests sample_two_queries)
           @ [''/api/memories/mem-1/records/constructor?namespace=undefined'']"
  by (simp add: sample_two_queries_state handleDeleteClick_def confirmDeleteRecord_def js_get_def
      object_prototype_members_def confirmClicked_def executeDeleteRecord_def send_def Let_def
      status_checked_def sample_memory_def delete_record_url_def encodeURIComponent_def
      uri_unreserved_def)

text \<open>The view button of the same row hands the inherited member to the JSON dialog.\<close>

lemma inherited_name_reaches_json_dialog:
  "json_modal (handleJsonViewClick ''record'' ''constructor'' sample_two_queries)
     = Some (''Memory Record: constructor'', InheritedMember)"
  by (simp add: sample_two_queries_state handleJsonViewClick_def showRecordJson_def
      showJsonModal_def js_get_def object_prototype_members_def)

section \<open>The message of a failed request\<close>

text \<open>
  Every call but the one of \<^verbatim>\<open>executeAddEvent\<close> raises the status line for a status
  outside 200 to 299 and does not read the body; \<^verbatim>\<open>executeAddEvent\<close> raises the \<^verbatim>\<open>detail\<close>
  of the body.
\<close>

lemma http_error_500: "http_error 500 ''Internal Server Error'' = ''HTTP 500: Internal Server Error''"
  by (simp add: http_error_def show_nat.simps digit_char_def)

lemma status_checked_ignores_detail:
  "\<not> response_ok status \<Longrightarrow>
   status_checked (Responded status statusText (Parsed d x)) = Inl (http_error status statusText)"
  by (simp add: status_checked_def)

lemma detail_checked_prefers_detail:
  "\<not> response_ok status \<Longrightarrow> t \<noteq> [] \<Longrightarrow>
   detail_checked (Responded status statusText (Parsed (Some (JStr t)) x)) = Inl t"
  by (simp add: detail_checked_def)

text \<open>
  Claim C3. A search that is answered with status 500 and the body
  \<^verbatim>\<open>{"detail": "index unavailable"}\<close> renders the banner
  \<^verbatim>\<open>Error retrieving memory records: HTTP 500: Internal Server Error\<close>, which does not
  contain the detail message.
\<close>

theorem retrieve_failure_banner:
  "views (executeRetrieveMemoryRecords 0 ''query'' ''/ns/''
            (Responded 500 ''Internal Server Error'' (Parsed (Some (JStr ''index unavailable'')) None))
            sample_browsed) (StrategyRetrieveResults 0)
     = AlertView Danger ''Error retrieving memory records: HTTP 500: Internal Server Error''
   \<and> currentRecordsData (executeRetrieveMemoryRecords 0 ''query'' ''/ns/''
            (Responded 500 ''Internal Server Error'' (Parsed (Some (JStr ''index unavailable'')) None))
            sample_browsed)
     = currentRecordsData sample_browsed
   \<and> \<not> js_includes ''Error retrieving memory records: HTTP 500: Internal Server Error''
         ''index unavailable''"
  by (simp add: executeRetrieveMemoryRecords_def executeApiCall_def sample_browsed_caches
      sample_memory_def status_checked_def response_ok_def trim_def js_space_def render_def
      send_def showLoading_def showError_def http_error_500 js_includes_def alert_view_def
      text_plain_def)
     (simp add: sample_browsed_def executeListMemoryRecords_def executeGlobalListEvents_def
      executeApiCall_def sample_page_def sample_memory_def ok_response_def status_checked_def
      response_ok_def trim_def js_space_def displayRecords_def displayEvents_def render_def
      send_def showLoading_def)

text \<open>The same response to \<^verbatim>\<open>executeAddEvent\<close> renders the detail message.\<close>

lemma add_event_failure_banner:
  "views (executeAddEvent ''hello'' ''text'' ''USER'' [] []
            (Responded 500 ''Internal Server Error'' (Parsed (Some (JStr ''index unavailable'')) (None, None)))
            sample_page) AddEventResults
     = AlertView Danger ''Error creating event: index unavailable''"
  by (simp add: executeAddEvent_def executeApiCall_def sample_page_def
      detail_checked_def response_ok_def trim_def js_space_def render_def
      send_def showLoading_def showError_def alert_view_def text_plain_def)

section \<open>A deletion that succeeds\<close>

text \<open>
  No layout puts an element that holds a badge before the \<^verbatim>\<open>div.table-responsive\<close>, so
  \<^verbatim>\<open>executeDeleteEvent\<close> never finds the badge it wants to rewrite; the header of the
  records layout is found. After a successful deletion of an event the cache has lost
  the id and kept every other entry, the first row with the id is gone, the one
  request issued is the deletion, and the badge shows the count it showed before.
\<close>

lemma events_badge_never_found: "events_badge_found v = False"
  by (cases v) (simp_all add: events_badge_found_def previousElementSibling_def)

lemma count_text_found_records: "count_text_found (RecordsView title shown n rows)"
  by (simp add: count_text_found_def previousElementSibling_def)

lemma remove_row_absent: "\<not> has_row rid rows \<Longrightarrow> remove_row rid rows = rows"
  by (induction rows) (auto simp: has_row_def)

lemma remove_event_row_keeps_badge:
  "remove_event_row eid k (EventsView n rows) = EventsView n (remove_row eid rows)"
  by (simp add: remove_event_row_def events_badge_never_found remove_row_absent)

lemma delete_event_succeeds:
  assumes "currentMemory s = Some m" and "status_checked outcome = Inr x"
  shows "map_of (currentEventsData (executeDeleteEvent eid sid aid outcome s))
           = (map_of (currentEventsData s))(eid := None)"
    and "currentRecordsData (executeDeleteEvent eid sid aid outcome s) = currentRecordsData s"
    and "requests (executeDeleteEvent eid sid aid outcome s)
           = requests s @ [\<lparr>http_method = ''DELETE'',
                url = delete_event_url (memory_id m) eid sid aid, sent_body = None\<rparr>]"
    and "views s GlobalEventsResults = EventsView n rows \<Longrightarrow>
         views (executeDeleteEvent eid sid aid outcome s) GlobalEventsResults
           = EventsView n (remove_row eid rows)"
  using assms
  by (simp_all add: executeDeleteEvent_def send_def Let_def delete_conv'
      remove_event_row_keeps_badge)

lemma delete_record_rewrites_count:
  assumes "currentMemory s = Some m" and "status_checked outcome = Inr x"
    and "tabs s = 1"
    and "views s (StrategyRecordsResults 0) = RecordsView title shown n rows"
    and "has_row rid rows"
  shows "views (executeDeleteRecord rid ns outcome s) (StrategyRecordsResults 0)
       = RecordsView title (case namespaceMatch shown of Some g \<Rightarrow> g | None \<Rightarrow> [])
           (length (AList.delete rid (currentRecordsData s))) (remove_row rid rows)"
  using assms
  by (simp add: executeDeleteRecord_def send_def Let_def record_containers_def shows_record_def
      remove_record_row_def count_text_found_records)

lemma sample_browsed_views:
  "views sample_browsed GlobalEventsResults = EventsView 1 [Row ''e1'' (PreviewText ''hello'')]"
  "views sample_browsed (StrategyRecordsResults 0)
     = RecordsView ''Memory Records'' ''/ns/'' 1 [Row ''r1'' (PreviewText ''hello'')]"
  "tabs sample_browsed = 1"
  by (simp_all add: sample_browsed_def executeListMemoryRecords_def executeGlobalListEvents_def
      executeApiCall_def sample_page_def sample_memory_def ok_response_def status_checked_def
      response_ok_def trim_def js_space_def displayRecords_def displayEvents_def render_def
      send_def showLoading_def sample_key sample_plain sample_rows)

text \<open>
  Claim C4. On the sample page one event, \<^verbatim>\<open>e1\<close>, is listed and the badge reads
  \<^verbatim>\<open>1 event(s)\<close>. After the delete button of the row is clicked, the dialog confirmed and
  the request answered with success, the cache is empty, the table has no row and the
  deletion is the only request issued, and the badge still reads \<^verbatim>\<open>1 event(s)\<close>.
\<close>

theorem delete_event_badge_stays:
  "views sample_browsed GlobalEventsResults = EventsView 1 [Row ''e1'' (PreviewText ''hello'')]
   \<and> currentEventsData (confirmClicked (ok_response ()) (handleDeleteClick ''event'' ''e1'' sample_browsed))
       = []
   \<and> views (confirmClicked (ok_response ()) (handleDeleteClick ''event'' ''e1'' sample_browsed))
         GlobalEventsResults
       = EventsView 1 []
   \<and> map http_method
         (requests (confirmClicked (ok_response ()) (handleDeleteClick ''event'' ''e1'' sample_browsed)))
       = map http_method (requests sample_browsed) @ [''DELETE'']"
  by (simp add: sample_browsed_views confirmClicked_def handleDeleteClick_def
      confirmDeleteEvent_def sample_browsed_caches executeDeleteEvent_def send_def Let_def
      ok_response_def status_checked_def response_ok_def cache_event_def
      remove_event_row_def events_badge_never_found has_row_def js_get_def)

text \<open>
  The same steps for the record \<^verbatim>\<open>r1\<close> rewrite the count of the records header to the
  size of the cache (and lose the namespace shown, since the pattern does not match
  the text content).
\<close>

lemma delete_record_count_sample:
  "views (confirmClicked (ok_response ()) (handleDeleteClick ''record'' ''r1'' sample_browsed))
         (StrategyRecordsResults 0)
       = RecordsView ''Memory Records'' [] 0 []"
  by (simp add: sample_browsed_views confirmClicked_def handleDeleteClick_def
      confirmDeleteRecord_def sample_browsed_caches executeDeleteRecord_def send_def Let_def
      ok_response_def status_checked_def response_ok_def cache_record_def
      record_containers_def shows_record_def remove_record_row_def count_text_found_records
      has_row_def namespaceMatch_def match_here_def js_get_def)

section \<open>Request URLs\<close>

text \<open>What \<^verbatim>\<open>encodeURIComponent\<close> returns holds unreserved characters and percent signs only.\<close>

lemma encodeURIComponent_safe:
  "\<forall>c\<in>set (encodeURIComponent s). uri_unreserved c \<or> c = CHR ''%''"
proof -
  have hex: "uri_unreserved (hex_char d)" if "d < 16" for d
  proof -
    from that have "d = 0 \<or> d = 1 \<or> d = 2 \<or> d = 3 \<or> d = 4 \<or> d = 5 \<or> d = 6 \<or> d = 7
        \<or> d = 8 \<or> d = 9 \<or> d = 10 \<or> d = 11 \<or> d = 12 \<or> d = 13 \<or> d = 14 \<or> d = 15"
      by arith
    then show ?thesis
      by (auto simp: hex_char_def uri_unreserved_def)
  qed
  have "uri_unreserved x \<or> x = CHR ''%''" if "x \<in> set (percent_encode c)" for x c
  proof -
    have "(of_char c :: nat) mod 256 < 256" by simp
    then have "(of_char c :: nat) < 256" by (simp only: of_char_mod_256)
    then have "(of_char c :: nat) div 16 < 16" "(of_char c :: nat) mod 16 < 16" by arith+
    with that show ?thesis by (auto simp: percent_encode_def hex)
  qed
  then show ?thesis
    by (auto simp: encodeURIComponent_def split: if_splits)
qed

text \<open>
  Claim C6. \<^verbatim>\<open>executeGlobalListEvents\<close> encodes the session and the actor and puts the
  id of the memory into the path as it is: for the memory id \<^verbatim>\<open>a/b?c\<close> the request goes
  to \<^verbatim>\<open>/api/memories/a/b?c/events?...\<close>. The URL of \<^verbatim>\<open>executeDeleteEvent\<close> encodes the same id.
\<close>

theorem list_events_url_raw_memory_id:
  "map url (requests (executeGlobalListEvents ''s 1'' ''a&1'' (Rejected [])
        (sample_page\<lparr>currentMemory := Some \<lparr>memory_id = ''a/b?c'', strategies = []\<rparr>\<rparr>)))
     = [''/api/memories/a/b?c/events?session_id=s%201&actor_id=a%261&max_results=50'']
   \<and> delete_event_url ''a/b?c'' ''e1'' ''s 1'' ''a&1''
     = ''/api/memories/a%2Fb%3Fc/events/e1?session_id=s%201&actor_id=a%261''"
  by (simp add: executeGlobalListEvents_def executeApiCall_def sample_page_def
      status_checked_def trim_def js_space_def send_def showLoading_def showError_def render_def
      list_events_url_def delete_event_url_def encodeURIComponent_def uri_unreserved_def
      percent_encode_def hex_char_def)

text \<open>
  The URLs for listing and searching records, adding an event and loading a memory
  carry the raw memory id as well; the URL for deleting a record encodes it.
\<close>

lemma memory_id_raw_in_other_urls:
  "list_records_url ''a/b?c'' ''/ns/'' = ''/api/memories/a/b?c/records?namespace=%2Fns%2F&max_results=50''"
  "retrieve_url ''a/b?c'' = ''/api/memories/a/b?c/retrieve''"
  "add_event_url ''a/b?c'' = ''/api/memories/a/b?c/records''"
  "get_memory_url ''a/b?c'' = ''/api/memories/a/b?c''"
  "delete_record_url ''a/b?c'' ''r1'' ''/ns/'' = ''/api/memories/a%2Fb%3Fc/records/r1?namespace=%2Fns%2F''"
  by (simp_all add: list_records_url_def retrieve_url_def add_event_url_def get_memory_url_def
      delete_record_url_def encodeURIComponent_def uri_unreserved_def percent_encode_def hex_char_def)

end
